theory Spec2Isabelle
  imports Main "HOL-Library.Word" "HOL-Library.Multiset"
begin

section \<open>BIP371 helpers of the PSBT code (ts\_src/psbt/bip371.ts)\<close>

subsection \<open>Data\<close>

text \<open>
  A \<open>Uint8Array\<close> is a list of bytes. JavaScript numbers that the code only uses as
  counters, depths and versions are naturals; script positions are integers, since the
  position lookup answers a negative number for a key that is not in the script.
\<close>

type_synonym bytes = "8 word list"

text \<open>
  Every \<open>throw new Error(...)\<close> of the file is one constructor, named after the error
  kind of the specification; the action name or the input index that the message embeds
  is kept as an argument. \<open>FinalizeError\<close> is the error that the \<open>catch\<close> of
  \<open>tapScriptFinalizer\<close> throws: it carries the input index and the error caught.
  \<open>ExternalError\<close> is an error thrown by an imported function, with its message, and
  \<open>CannotTweak\<close> the failure of the key tweak.
\<close>

datatype error =
    NotATree
  | MalformedTapTree
  | DepthExceeded
  | MixedFieldsError string
  | LeafNotInTree string
  | ScriptMismatch
  | NoScriptSignature nat
  | NoMatchingLeaf nat
  | CannotTweak
  | ExternalError string
  | FinalizeError nat error

text \<open>
  \<open>Tapleaf\<close> of types.ts: \<open>{ output: Uint8Array; version?: number }\<close>. The field
  \<open>output\<close> is called \<open>leafOutput\<close> here, \<open>output\<close> being a keyword of Isabelle.
\<close>

record Tapleaf =
  leafOutput :: bytes
  version :: "nat option"

text \<open>
  \<open>PartialTaptree\<close>: a leaf, a pair of subtrees, or \<open>undefined\<close> (\<open>Empty\<close>).
  A \<open>Taptree\<close> is the same type without empty slots.
\<close>

datatype ptree = Empty | Leaf Tapleaf | Branch ptree ptree

text \<open>
  The two BIP174 leaf records share the leaf version and the script:
  \<open>TapLeaf = { depth, leafVersion, script }\<close> and
  \<open>TapLeafScript = { leafVersion, script, controlBlock }\<close>.
\<close>

record LeafData =
  leafVersion :: nat
  script :: bytes

record TapLeaf = LeafData +
  depth :: nat

record TapLeafScript = LeafData +
  controlBlock :: bytes

record TapScriptSig =
  pubkey :: bytes
  leafHash :: bytes
  signature :: bytes

subsection \<open>Constants and type guards imported from files that are not in the sources\<close>

text \<open>
  Modelled from the spec: \<open>MAX_TAPTREE_DEPTH\<close> of payments/bip341 (not among the
  sources); the specification gives the maximal depth as 128.
\<close>

definition MAX_TAPTREE_DEPTH :: nat where
  "MAX_TAPTREE_DEPTH = 128"

text \<open>
  Modelled from the spec: \<open>LEAF_VERSION_TAPSCRIPT\<close> of payments/bip341 (not among the
  sources); the tapscript leaf version of BIP341 is \<open>0xc0\<close>.
\<close>

definition LEAF_VERSION_TAPSCRIPT :: nat where
  "LEAF_VERSION_TAPSCRIPT = 192"

text \<open>
  Modelled from the spec: the type guard \<open>isTapleaf\<close> of types.ts (not among the
  sources). The specification turns the duck-typed check into the discriminator of the
  tagged tree type: a value is a tapleaf when it is a leaf node.
\<close>

fun isTapleaf :: "ptree \<Rightarrow> bool" where
  "isTapleaf (Leaf _) = True"
| "isTapleaf _ = False"

text \<open>
  Modelled from the spec: the shape predicate \<open>isTaptree\<close> of types.ts (not among the
  sources). The specification describes a TapTree as either a script leaf or a pair
  \<open>(left: TapTree?, right: TapTree?)\<close>: a child may be absent, the tree itself may not.
\<close>

fun isTaptree :: "ptree \<Rightarrow> bool" where
  "isTaptree Empty = False"
| "isTaptree (Leaf _) = True"
| "isTaptree (Branch l r) = ((l = Empty \<or> isTaptree l) \<and> (r = Empty \<or> isTaptree r))"

subsection \<open>Tree codec\<close>

text \<open>
  \<open>tree.version || LEAF_VERSION_TAPSCRIPT\<close>: an absent version and the version 0 are
  both falsy, so both are replaced by the default.
\<close>

definition versionOrDefault :: "nat option \<Rightarrow> nat" where
  "versionOrDefault v = (case v of None \<Rightarrow> LEAF_VERSION_TAPSCRIPT
                          | Some n \<Rightarrow> if n = 0 then LEAF_VERSION_TAPSCRIPT else n)"

text \<open>
  \<open>_tapTreeToList(tree, leaves, depth)\<close>. The source pushes onto the array \<open>leaves\<close>
  and ignores what the recursive calls return; a recursive call is only made on a
  non-empty child, where the value returned is that same array, so the model threads
  the array through the calls. On an empty tree the source returns a fresh \<open>[]\<close>.
\<close>

fun tapTreeToList_rec :: "ptree \<Rightarrow> TapLeaf list \<Rightarrow> nat \<Rightarrow> error + TapLeaf list" where
  "tapTreeToList_rec tree leaves d =
     (if d > MAX_TAPTREE_DEPTH then Inl DepthExceeded
      else case tree of
        Empty \<Rightarrow> Inr []
      | Leaf lf \<Rightarrow>
          Inr (leaves @ [\<lparr>leafVersion = versionOrDefault (version lf),
                          script = leafOutput lf, depth = d\<rparr>])
      | Branch l r \<Rightarrow>
          (case (if l \<noteq> Empty then tapTreeToList_rec l leaves (d + 1) else Inr leaves) of
             Inl e \<Rightarrow> Inl e
           | Inr leaves1 \<Rightarrow>
              (case (if r \<noteq> Empty then tapTreeToList_rec r leaves1 (d + 1) else Inr leaves1) of
                 Inl e \<Rightarrow> Inl e
               | Inr leaves2 \<Rightarrow> Inr leaves2)))"

declare tapTreeToList_rec.simps [simp del]

text \<open>\<open>tapTreeToList(tree)\<close>: the shape check, then the traversal from depth 0.\<close>

definition tapTreeToList :: "ptree \<Rightarrow> error + TapLeaf list" where
  "tapTreeToList tree =
     (if \<not> isTaptree tree then Inl NotATree else tapTreeToList_rec tree [] 0)"

text \<open>\<open>tree && tree[0]\<close> and \<open>tree && tree[1]\<close>, for a tree that is not a leaf.\<close>

fun child0 :: "ptree \<Rightarrow> ptree" where
  "child0 (Branch l r) = l"
| "child0 _ = Empty"

fun child1 :: "ptree \<Rightarrow> ptree" where
  "child1 (Branch l r) = r"
| "child1 _ = Empty"

text \<open>
  \<open>instertLeafInTree(leaf, tree, depth)\<close>. The result \<open>Inr Empty\<close> is the source's
  \<open>undefined\<close>: no room for the leaf below this node. An exception of a recursive call
  passes through. The recursion is not structural (below an empty slot it goes on with
  empty slots); it ends because the depth grows up to the cap.
\<close>

function instertLeafInTree :: "TapLeaf \<Rightarrow> ptree \<Rightarrow> nat \<Rightarrow> error + ptree" where
  "instertLeafInTree leaf tree d =
     (if d > MAX_TAPTREE_DEPTH then Inl DepthExceeded
      else if depth leaf = d then
        (if tree = Empty
         then Inr (Leaf \<lparr>leafOutput = script leaf, version = Some (leafVersion leaf)\<rparr>)
         else Inr Empty)
      else if isTapleaf tree then Inr Empty
      else case instertLeafInTree leaf (child0 tree) (d + 1) of
             Inl e \<Rightarrow> Inl e
           | Inr leftSide \<Rightarrow>
               if leftSide \<noteq> Empty then Inr (Branch leftSide (child1 tree))
               else (case instertLeafInTree leaf (child1 tree) (d + 1) of
                       Inl e \<Rightarrow> Inl e
                     | Inr rightSide \<Rightarrow>
                         if rightSide \<noteq> Empty then Inr (Branch (child0 tree) rightSide)
                         else Inr Empty))"
  by pat_completeness auto
termination
  by (relation "measure (\<lambda>(leaf, tree, d). Suc MAX_TAPTREE_DEPTH - d)") auto

declare instertLeafInTree.simps [simp del]

text \<open>
  The loop of \<open>instertLeavesInTree\<close>, with the variable \<open>tree\<close> as its state: each leaf
  is inserted from depth 0, and an insertion that finds no room throws.
\<close>

fun instertLeaves_loop :: "TapLeaf list \<Rightarrow> ptree \<Rightarrow> error + ptree" where
  "instertLeaves_loop [] tree = Inr tree"
| "instertLeaves_loop (leaf # rest) tree =
     (case instertLeafInTree leaf tree 0 of
        Inl e \<Rightarrow> Inl e
      | Inr tree' \<Rightarrow>
          if tree' = Empty then Inl MalformedTapTree else instertLeaves_loop rest tree')"

definition instertLeavesInTree :: "TapLeaf list \<Rightarrow> error + ptree" where
  "instertLeavesInTree leaves = instertLeaves_loop leaves Empty"

text \<open>
  \<open>tapTreeFromList(leaves = [])\<close>: an omitted argument (\<open>None\<close>) is the empty list.
\<close>

definition tapTreeFromList :: "TapLeaf list option \<Rightarrow> error + ptree" where
  "tapTreeFromList arg =
     (let leaves = (case arg of None \<Rightarrow> [] | Some ls \<Rightarrow> ls)
      in if length leaves = 1 \<and> depth (leaves ! 0) = 0
         then Inr (Leaf \<lparr>leafOutput = script (leaves ! 0),
                          version = Some (leafVersion (leaves ! 0))\<rparr>)
         else instertLeavesInTree leaves)"

subsection \<open>PSBT records and external primitives\<close>

text \<open>
  \<open>TapTree\<close> of BIP174 is \<open>{ leaves: TapLeaf[] }\<close>; a signature with the position of
  its key is \<open>TapScriptSigWitPosition\<close>; of a witness UTXO the code reads the script
  (the fields \<open>script\<close> and \<open>value\<close> of the source).
\<close>

record TapTree =
  leaves :: "TapLeaf list"

record TapScriptSigWitPosition = TapScriptSig +
  positionInScript :: int

record WitnessUtxo =
  utxoScript :: bytes
  utxoValue :: nat

text \<open>
  The fields that \<open>PsbtInput\<close> and \<open>PsbtOutput\<close> have in common, then each of the
  two. An optional field is an \<open>option\<close>. Of a derivation entry only its presence in
  the array is read, so an entry is kept as bytes. \<open>outScript\<close> is the field \<open>script\<close>
  that the PSBT code adds to an output.
\<close>

record PsbtIO =
  redeemScript :: "bytes option"
  witnessScript :: "bytes option"
  bip32Derivation :: "bytes list option"
  tapInternalKey :: "bytes option"
  tapBip32Derivation :: "bytes list option"

record PsbtInput = PsbtIO +
  tapMerkleRoot :: "bytes option"
  tapLeafScript :: "TapLeafScript list option"
  tapScriptSig :: "TapScriptSig list option"
  witnessUtxo :: "WitnessUtxo option"

record PsbtOutput = PsbtIO +
  tapTree :: "TapTree option"
  outScript :: "bytes option"

text \<open>
  The functions imported from psbtutils and payments/bip341 are parameters of the model.
  The two that \<open>tapScriptFinalizer\<close> calls under its \<open>try\<close> may throw, and answer an
  error or a value: the position lookup, which parses the script, and the encoder of the
  witness stack. The hash of a leaf is computed under the \<open>try\<close> too, but only for the
  selected leaf, for which \<open>canFinalizeLeaf\<close> has computed it before. \<open>treeRoot\<close> is
  the Merkle root of a script tree and \<open>tweakKey\<close> the key-tweaking function of the
  specification, \<open>tweakKey(internalKey, merkleRoot?) -> { x } | null\<close>, which answers
  the bytes \<open>x\<close> or nothing.
\<close>

record Primitives =
  isP2TR :: "bytes \<Rightarrow> bool"
  tapleafHash :: "Tapleaf \<Rightarrow> bytes"
  rootHashFromPath :: "bytes \<Rightarrow> bytes \<Rightarrow> bytes"
  pubkeyPositionInScript :: "bytes \<Rightarrow> bytes \<Rightarrow> error + int"
  witnessStackToScriptWitness :: "bytes list \<Rightarrow> error + bytes"
  treeRoot :: "ptree \<Rightarrow> bytes"
  tweakKey :: "bytes \<Rightarrow> bytes option \<Rightarrow> bytes option"

text \<open>
  Modelled from the spec: the output-script builder \<open>p2tr\<close> of payments (not among the
  sources), of which the code reads the field \<open>output\<close>. The specification gives the
  Taproot scriptPubKey as the 34 bytes \<open>OP_1 <32-byte-x-only-key>\<close>, the key being the
  internal key tweaked by the root of the tree, or untweaked when there is no tree; a
  tweak that fails is the error \<open>CannotTweak\<close>. The tree \<open>Empty\<close> is an absent tree.
\<close>

definition taprootOutputScript :: "bytes \<Rightarrow> bytes" where
  "taprootOutputScript key = 0x51 # 0x20 # key"

definition p2tr :: "Primitives \<Rightarrow> bytes \<Rightarrow> ptree \<Rightarrow> error + bytes" where
  "p2tr X internalPubkey scriptTree =
     (if scriptTree = Empty then Inr (taprootOutputScript internalPubkey)
      else case tweakKey X internalPubkey (Some (treeRoot X scriptTree)) of
             None \<Rightarrow> Inl CannotTweak
           | Some x \<Rightarrow> Inr (taprootOutputScript x))"

text \<open>
  Objects are compared by identity in one place (\<open>inputData === newInputData\<close>), so the
  two checks that do it take their arguments as references into a store of objects.
\<close>

type_synonym ref = nat
type_synonym 'a store = "ref \<Rightarrow> 'a"

subsection \<open>Array.prototype.sort\<close>

text \<open>
  The sort of JavaScript is stable and, for a comparator that is an order, leaves the
  array ordered by it; that fixes the result. The model is a stable sort by insertion:
  an element goes in front of the first element that it does not compare greater than.
\<close>

fun sortInsert :: "('a \<Rightarrow> 'a \<Rightarrow> int) \<Rightarrow> 'a \<Rightarrow> 'a list \<Rightarrow> 'a list" where
  "sortInsert cmp x [] = [x]"
| "sortInsert cmp x (y # ys) =
     (if cmp x y \<le> 0 then x # y # ys else y # sortInsert cmp x ys)"

definition js_sort :: "('a \<Rightarrow> 'a \<Rightarrow> int) \<Rightarrow> 'a list \<Rightarrow> 'a list" where
  "js_sort cmp xs = foldr (sortInsert cmp) xs []"

subsection \<open>Field classifiers and checks\<close>

text \<open>\<open>x && x.length\<close> for an optional array.\<close>

definition nonEmptyArray :: "'a list option \<Rightarrow> bool" where
  "nonEmptyArray a = (case a of None \<Rightarrow> False | Some xs \<Rightarrow> length xs \<noteq> 0)"

definition isTaprootInput :: "Primitives \<Rightarrow> PsbtInput \<Rightarrow> bool" where
  "isTaprootInput X input =
     (tapInternalKey input \<noteq> None \<or>
      tapMerkleRoot input \<noteq> None \<or>
      nonEmptyArray (tapLeafScript input) \<or>
      nonEmptyArray (tapBip32Derivation input) \<or>
      (case witnessUtxo input of None \<Rightarrow> False | Some u \<Rightarrow> isP2TR X (utxoScript u)))"

definition isTaprootOutput :: "Primitives \<Rightarrow> PsbtOutput \<Rightarrow> bytes option \<Rightarrow> bool" where
  "isTaprootOutput X out scr =
     (tapInternalKey out \<noteq> None \<or>
      tapTree out \<noteq> None \<or>
      nonEmptyArray (tapBip32Derivation out) \<or>
      (case scr of None \<Rightarrow> False | Some s \<Rightarrow> isP2TR X s))"

definition hasNonTaprootFields :: "'a PsbtIO_scheme \<Rightarrow> bool" where
  "hasNonTaprootFields io =
     (redeemScript io \<noteq> None \<or>
      witnessScript io \<noteq> None \<or>
      nonEmptyArray (bip32Derivation io))"

definition checkMixedTaprootAndNonTaprootInputFields ::
  "Primitives \<Rightarrow> PsbtInput store \<Rightarrow> ref \<Rightarrow> ref \<Rightarrow> string \<Rightarrow> error + unit" where
  "checkMixedTaprootAndNonTaprootInputFields X h inputData newInputData action =
     (let isBadTaprootUpdate =
            (isTaprootInput X (h inputData) \<and> hasNonTaprootFields (h newInputData));
          isBadNonTaprootUpdate =
            (hasNonTaprootFields (h inputData) \<and> isTaprootInput X (h newInputData));
          hasMixedFields =
            (inputData = newInputData \<and> isTaprootInput X (h newInputData) \<and>
             hasNonTaprootFields (h newInputData))
      in if isBadTaprootUpdate \<or> isBadNonTaprootUpdate \<or> hasMixedFields
         then Inl (MixedFieldsError action) else Inr ())"

definition checkMixedTaprootAndNonTaprootOutputFields ::
  "Primitives \<Rightarrow> PsbtOutput store \<Rightarrow> ref \<Rightarrow> ref \<Rightarrow> string \<Rightarrow> error + unit" where
  "checkMixedTaprootAndNonTaprootOutputFields X h inputData newInputData action =
     (let isBadTaprootUpdate =
            (isTaprootOutput X (h inputData) None \<and> hasNonTaprootFields (h newInputData));
          isBadNonTaprootUpdate =
            (hasNonTaprootFields (h inputData) \<and> isTaprootOutput X (h newInputData) None);
          hasMixedFields =
            (inputData = newInputData \<and> isTaprootOutput X (h newInputData) None \<and>
             hasNonTaprootFields (h newInputData))
      in if isBadTaprootUpdate \<or> isBadNonTaprootUpdate \<or> hasMixedFields
         then Inl (MixedFieldsError action) else Inr ())"

text \<open>\<open>tools.compare(a, b) === 0\<close> holds exactly for equal byte arrays.\<close>

definition isTapLeafInTree :: "Primitives \<Rightarrow> TapLeafScript \<Rightarrow> bytes option \<Rightarrow> bool" where
  "isTapLeafInTree X tapLeaf merkleRoot =
     (case merkleRoot of
        None \<Rightarrow> True
      | Some root \<Rightarrow>
          (let lh = tapleafHash X \<lparr>leafOutput = script tapLeaf,
                                   version = Some (leafVersion tapLeaf)\<rparr>;
               rootHash = rootHashFromPath X (controlBlock tapLeaf) lh
           in rootHash = root))"

text \<open>\<open>x || []\<close> for an optional array.\<close>

definition orEmpty :: "'a list option \<Rightarrow> 'a list" where
  "orEmpty a = (case a of None \<Rightarrow> [] | Some xs \<Rightarrow> xs)"

definition checkIfTapLeafInTree ::
  "Primitives \<Rightarrow> PsbtInput \<Rightarrow> PsbtInput \<Rightarrow> string \<Rightarrow> error + unit" where
  "checkIfTapLeafInTree X inputData newInputData action =
     (if tapMerkleRoot newInputData \<noteq> None then
        (let newLeafsInTree =
               list_all (\<lambda>l. isTapLeafInTree X l (tapMerkleRoot newInputData))
                 (orEmpty (tapLeafScript newInputData));
             oldLeafsInTree =
               list_all (\<lambda>l. isTapLeafInTree X l (tapMerkleRoot newInputData))
                 (orEmpty (tapLeafScript inputData))
         in if \<not> newLeafsInTree \<or> \<not> oldLeafsInTree
            then Inl (LeafNotInTree action) else Inr ())
      else if tapMerkleRoot inputData \<noteq> None then
        (let newLeafsInTree =
               list_all (\<lambda>l. isTapLeafInTree X l (tapMerkleRoot inputData))
                 (orEmpty (tapLeafScript newInputData))
         in if \<not> newLeafsInTree then Inl (LeafNotInTree action) else Inr ())
      else Inr ())"

definition checkTaprootInputFields ::
  "Primitives \<Rightarrow> PsbtInput store \<Rightarrow> ref \<Rightarrow> ref \<Rightarrow> string \<Rightarrow> error + unit" where
  "checkTaprootInputFields X h inputData newInputData action =
     (case checkMixedTaprootAndNonTaprootInputFields X h inputData newInputData action of
        Inl e \<Rightarrow> Inl e
      | Inr _ \<Rightarrow> checkIfTapLeafInTree X (h inputData) (h newInputData) action)"

text \<open>
  \<open>getTaprootScripPubkey\<close>: the script tree is \<open>tapTree && tapTreeFromList(tapTree.leaves)\<close>,
  absent when there is no \<open>tapTree\<close>; an exception of the codec or of the builder
  passes through.
\<close>

definition getTaprootScripPubkey ::
  "Primitives \<Rightarrow> bytes \<Rightarrow> TapTree option \<Rightarrow> error + bytes" where
  "getTaprootScripPubkey X key tree =
     (case (case tree of None \<Rightarrow> Inr Empty | Some t \<Rightarrow> tapTreeFromList (Some (leaves t))) of
        Inl e \<Rightarrow> Inl e
      | Inr scriptTree \<Rightarrow> p2tr X key scriptTree)"

text \<open>\<open>a || b\<close> for two optional objects.\<close>

definition orElse :: "'a option \<Rightarrow> 'a option \<Rightarrow> 'a option" where
  "orElse a b = (case a of None \<Rightarrow> b | Some x \<Rightarrow> Some x)"

definition checkTaprootScriptPubkey ::
  "Primitives \<Rightarrow> PsbtOutput \<Rightarrow> PsbtOutput \<Rightarrow> error + unit" where
  "checkTaprootScriptPubkey X outputData newOutputData =
     (if tapTree newOutputData = None \<and> tapInternalKey newOutputData = None then Inr ()
      else
        (let key = orElse (tapInternalKey newOutputData) (tapInternalKey outputData);
             tree = orElse (tapTree newOutputData) (tapTree outputData)
         in case key of
              None \<Rightarrow> Inr ()
            | Some k \<Rightarrow>
                (case getTaprootScripPubkey X k tree of
                   Inl e \<Rightarrow> Inl e
                 | Inr scr \<Rightarrow>
                     (case outScript outputData of
                        None \<Rightarrow> Inr ()
                      | Some scriptPubkey \<Rightarrow>
                          if scr \<noteq> scriptPubkey then Inl ScriptMismatch else Inr ()))))"

definition checkTaprootOutputFields ::
  "Primitives \<Rightarrow> PsbtOutput store \<Rightarrow> ref \<Rightarrow> ref \<Rightarrow> string \<Rightarrow> error + unit" where
  "checkTaprootOutputFields X h outputData newOutputData action =
     (case checkMixedTaprootAndNonTaprootOutputFields X h outputData newOutputData action of
        Inl e \<Rightarrow> Inl e
      | Inr _ \<Rightarrow> checkTaprootScriptPubkey X (h outputData) (h newOutputData))"

subsection \<open>Finalizer\<close>

text \<open>
  \<open>Array.prototype.map\<close> with a callback that may throw: the elements are mapped in
  order and the first exception ends the map.
\<close>

fun mapOrThrow :: "('a \<Rightarrow> error + 'b) \<Rightarrow> 'a list \<Rightarrow> error + 'b list" where
  "mapOrThrow f [] = Inr []"
| "mapOrThrow f (x # xs) =
     (case f x of
        Inl e \<Rightarrow> Inl e
      | Inr y \<Rightarrow> (case mapOrThrow f xs of Inl e \<Rightarrow> Inl e | Inr ys \<Rightarrow> Inr (y # ys)))"

definition addPubkeyPositionInScript ::
  "Primitives \<Rightarrow> bytes \<Rightarrow> TapScriptSig \<Rightarrow> error + TapScriptSigWitPosition" where
  "addPubkeyPositionInScript X scr tss =
     (case pubkeyPositionInScript X (pubkey tss) scr of
        Inl e \<Rightarrow> Inl e
      | Inr p \<Rightarrow>
          Inr \<lparr>pubkey = pubkey tss, leafHash = leafHash tss, signature = signature tss,
               positionInScript = p\<rparr>)"

text \<open>
  \<open>sortSignatures\<close>: \<open>filter\<close> and \<open>map\<close> build new arrays, so the sort does not touch
  the array of the input. An exception of the position lookup passes through.
\<close>

definition sortSignatures ::
  "Primitives \<Rightarrow> PsbtInput \<Rightarrow> TapLeafScript \<Rightarrow> error + bytes list" where
  "sortSignatures X input tapLeaf =
     (let lh = tapleafHash X \<lparr>leafOutput = script tapLeaf,
                              version = Some (leafVersion tapLeaf)\<rparr>
      in case mapOrThrow (addPubkeyPositionInScript X (script tapLeaf))
                (filter (\<lambda>tss. leafHash tss = lh) (orEmpty (tapScriptSig input))) of
           Inl e \<Rightarrow> Inl e
         | Inr withPositions \<Rightarrow>
             Inr (map signature
                    (js_sort (\<lambda>t1 t2. positionInScript t2 - positionInScript t1)
                       withPositions)))"

text \<open>\<open>!hash\<close> holds for an absent hash only: every \<open>Uint8Array\<close> is truthy.\<close>

definition canFinalizeLeaf ::
  "Primitives \<Rightarrow> TapLeafScript \<Rightarrow> TapScriptSig list \<Rightarrow> bytes option \<Rightarrow> bool" where
  "canFinalizeLeaf X leaf sigs hash =
     (let lh = tapleafHash X \<lparr>leafOutput = script leaf, version = Some (leafVersion leaf)\<rparr>;
          whiteListedHash = (case hash of None \<Rightarrow> True | Some hs \<Rightarrow> lh = hs)
      in whiteListedHash \<and> find (\<lambda>tss. leafHash tss = lh) sigs \<noteq> None)"

text \<open>
  \<open>findTapLeafToFinalize\<close>. \<open>sort\<close> orders the array it is called on in place: when
  the input has a \<open>tapLeafScript\<close> array, that array is the one sorted, so the function
  answers with the input as it is after the call, next to its result.
\<close>

definition findTapLeafToFinalize ::
  "Primitives \<Rightarrow> PsbtInput \<Rightarrow> nat \<Rightarrow> bytes option \<Rightarrow> (error + TapLeafScript) \<times> PsbtInput" where
  "findTapLeafToFinalize X input inputIndex leafHashToFinalize =
     (if \<not> nonEmptyArray (tapScriptSig input) then (Inl (NoScriptSignature inputIndex), input)
      else
        (let sorted = js_sort (\<lambda>a b. int (length (controlBlock a)) - int (length (controlBlock b)))
                        (orEmpty (tapLeafScript input));
             input' = (case tapLeafScript input of
                         None \<Rightarrow> input
                       | Some _ \<Rightarrow> input\<lparr>tapLeafScript := Some sorted\<rparr>)
         in case find (\<lambda>leaf. canFinalizeLeaf X leaf (orEmpty (tapScriptSig input'))
                                 leafHashToFinalize) sorted of
              None \<Rightarrow> (Inl (NoMatchingLeaf inputIndex), input')
            | Some tapLeaf \<Rightarrow> (Inr tapLeaf, input')))"

text \<open>
  \<open>tapScriptFinalizer\<close>, answering the bytes of \<open>finalScriptWitness\<close> and the input after
  the call. The leaf is looked for outside the \<open>try\<close>, so an error of
  \<open>findTapLeafToFinalize\<close> passes through as it is; an error thrown under the \<open>try\<close>
  is caught and thrown again as \<open>Can not finalize taproot input #i: err\<close>.
\<close>

definition tapScriptFinalizer ::
  "Primitives \<Rightarrow> nat \<Rightarrow> PsbtInput \<Rightarrow> bytes option \<Rightarrow> (error + bytes) \<times> PsbtInput" where
  "tapScriptFinalizer X inputIndex input tapLeafHashToFinalize =
     (case findTapLeafToFinalize X input inputIndex tapLeafHashToFinalize of
        (Inl e, input') \<Rightarrow> (Inl e, input')
      | (Inr tapLeaf, input') \<Rightarrow>
          (case sortSignatures X input' tapLeaf of
             Inl err \<Rightarrow> (Inl (FinalizeError inputIndex err), input')
           | Inr sigs \<Rightarrow>
               (let witness = sigs @ [script tapLeaf] @ [controlBlock tapLeaf]
                in case witnessStackToScriptWitness X witness of
                     Inl err \<Rightarrow> (Inl (FinalizeError inputIndex err), input')
                   | Inr finalScriptWitness \<Rightarrow> (Inr finalScriptWitness, input'))))"

section \<open>Notions used to state the properties\<close>

text \<open>
  A complete tree has no empty slot. \<open>nodeDepth\<close> is the depth of the deepest node
  that is not an empty slot. \<open>flatten t d\<close> lists the leaves of \<open>t\<close> left to right,
  with their depths counted from \<open>d\<close> and their versions defaulted as the conversion to
  a list does; \<open>withDefaults\<close> is the tree itself with its versions defaulted so.
  \<open>insertAllAt d\<close> is the insertion loop started at depth \<open>d\<close> on any tree.
\<close>

fun complete :: "ptree \<Rightarrow> bool" where
  "complete Empty = False"
| "complete (Leaf _) = True"
| "complete (Branch l r) = (complete l \<and> complete r)"

fun nodeDepth :: "ptree \<Rightarrow> nat" where
  "nodeDepth Empty = 0"
| "nodeDepth (Leaf _) = 0"
| "nodeDepth (Branch l r) =
     max (if l = Empty then 0 else Suc (nodeDepth l)) (if r = Empty then 0 else Suc (nodeDepth r))"

fun flatten :: "ptree \<Rightarrow> nat \<Rightarrow> TapLeaf list" where
  "flatten Empty d = []"
| "flatten (Leaf lf) d =
     [\<lparr>leafVersion = versionOrDefault (version lf), script = leafOutput lf, depth = d\<rparr>]"
| "flatten (Branch l r) d = flatten l (Suc d) @ flatten r (Suc d)"

fun withDefaults :: "ptree \<Rightarrow> ptree" where
  "withDefaults Empty = Empty"
| "withDefaults (Leaf lf) = Leaf \<lparr>leafOutput = leafOutput lf, version = Some (versionOrDefault (version lf))\<rparr>"
| "withDefaults (Branch l r) = Branch (withDefaults l) (withDefaults r)"

fun insertAllAt :: "nat \<Rightarrow> TapLeaf list \<Rightarrow> ptree \<Rightarrow> error + ptree" where
  "insertAllAt d [] tree = Inr tree"
| "insertAllAt d (leaf # rest) tree =
     (case instertLeafInTree leaf tree d of
        Inl e \<Rightarrow> Inl e
      | Inr tree' \<Rightarrow> if tree' = Empty then Inl MalformedTapTree else insertAllAt d rest tree')"

text \<open>
  \<open>leafList t d\<close> gives every leaf of a tree with the depth of its position.
  \<open>placed\<close> is the leaf that an insertion builds from an entry of the list.
  \<open>versionsSet\<close> holds when every leaf carries a version other than 0.
  \<open>roundTrip\<close> is \<open>tapTreeFromList(tapTreeToList(tree))\<close>.
\<close>

fun leafList :: "ptree \<Rightarrow> nat \<Rightarrow> (nat \<times> Tapleaf) list" where
  "leafList Empty d = []"
| "leafList (Leaf lf) d = [(d, lf)]"
| "leafList (Branch l r) d = leafList l (Suc d) @ leafList r (Suc d)"

definition placed :: "TapLeaf \<Rightarrow> nat \<times> Tapleaf" where
  "placed x = (depth x, \<lparr>leafOutput = script x, version = Some (leafVersion x)\<rparr>)"

fun versionsSet :: "ptree \<Rightarrow> bool" where
  "versionsSet Empty = True"
| "versionsSet (Leaf lf) = (case version lf of None \<Rightarrow> False | Some v \<Rightarrow> v \<noteq> 0)"
| "versionsSet (Branch l r) = (versionsSet l \<and> versionsSet r)"

definition roundTrip :: "ptree \<Rightarrow> error + ptree" where
  "roundTrip tree =
     (case tapTreeToList tree of Inl e \<Rightarrow> Inl e | Inr ls \<Rightarrow> tapTreeFromList (Some ls))"

text \<open>
  \<open>leafHashOf\<close> is the hash that the code computes for a leaf script. A leaf
  \<open>qualifies\<close> for finalization when its hash is the target hash, if one is given, and
  some signature carries that hash. \<open>cbLength\<close> is the byte length of the control
  block. \<open>matchingSigs\<close> are the signatures of an input that carry the hash of a leaf,
  \<open>keyLookup\<close> the lookup of the position of a signature's key in the script of a leaf.
  The Merkle path of a leaf reconciles with a root when the root computed from the
  control block and the leaf hash is that root.
\<close>

definition leafHashOf :: "Primitives \<Rightarrow> TapLeafScript \<Rightarrow> bytes" where
  "leafHashOf X l = tapleafHash X \<lparr>leafOutput = script l, version = Some (leafVersion l)\<rparr>"

definition qualifies :: "Primitives \<Rightarrow> TapScriptSig list \<Rightarrow> bytes option \<Rightarrow> TapLeafScript \<Rightarrow> bool" where
  "qualifies X sigs target l =
     ((target = None \<or> target = Some (leafHashOf X l)) \<and>
      (\<exists>tss\<in>set sigs. leafHash tss = leafHashOf X l))"

definition cbLength :: "TapLeafScript \<Rightarrow> nat" where
  "cbLength l = length (controlBlock l)"



definition pathReconciles :: "Primitives \<Rightarrow> TapLeafScript \<Rightarrow> bytes \<Rightarrow> bool" where
  "pathReconciles X l root = (rootHashFromPath X (controlBlock l) (leafHashOf X l) = root)"

subsection \<open>Sample values\<close>


definition sampleTree :: ptree where
  "sampleTree = Branch (Leaf \<lparr>leafOutput = [1], version = Some 192\<rparr>)
                  (Branch (Leaf \<lparr>leafOutput = [2], version = Some 192\<rparr>)
                          (Leaf \<lparr>leafOutput = [3], version = Some 194\<rparr>))"

definition sampleLeaves :: "TapLeaf list" where
  "sampleLeaves = [\<lparr>leafVersion = 192, script = [1], depth = 1\<rparr>,
                   \<lparr>leafVersion = 192, script = [2], depth = 2\<rparr>,
                   \<lparr>leafVersion = 194, script = [3], depth = 2\<rparr>]"

definition deepLeaf :: "nat \<Rightarrow> TapLeaf" where
  "deepLeaf n = \<lparr>leafVersion = 192, script = [], depth = n\<rparr>"


text \<open>
  Stand-ins for the primitives: the hash of a leaf is its script, the root of a path is
  the control block followed by the hash, the position of a one-byte key is its index in
  the script, and the lookup throws on the script that is the single byte \<open>0x4c\<close> (a
  push without its length); the encoder concatenates, the root of a tree is the
  concatenation of its leaf scripts and the tweak of a key by a root is the key followed
  by the root. Then three leaf scripts, the first two with control blocks of 65 and 33
  bytes, signatures, and stores of inputs and of outputs.
\<close>

definition samplePrims :: Primitives where
  "samplePrims = \<lparr>isP2TR = (\<lambda>s. length s = 34),
                   tapleafHash = (\<lambda>lf. leafOutput lf),
                   rootHashFromPath = (\<lambda>cb h. cb @ h),
                   pubkeyPositionInScript =
                     (\<lambda>pk scr. if scr = [0x4c] then Inl (ExternalError ''Unknown script error'')
                                else Inr (int (length (takeWhile (\<lambda>b. [b] \<noteq> pk) scr)))),
                   witnessStackToScriptWitness = (\<lambda>stack. Inr (concat stack)),
                   treeRoot = (\<lambda>t. concat (map (\<lambda>p. leafOutput (snd p)) (leafList t 0))),
                   tweakKey = (\<lambda>k r. case r of None \<Rightarrow> Some k | Some rt \<Rightarrow> Some (k @ rt))\<rparr>"

definition emptyInput :: PsbtInput where
  "emptyInput = \<lparr>redeemScript = None, witnessScript = None, bip32Derivation = None,
                  tapInternalKey = None, tapBip32Derivation = None, tapMerkleRoot = None,
                  tapLeafScript = None, tapScriptSig = None, witnessUtxo = None\<rparr>"

definition leafA :: TapLeafScript where
  "leafA = \<lparr>leafVersion = 192, script = [7, 8, 9], controlBlock = replicate 65 0\<rparr>"

definition leafB :: TapLeafScript where
  "leafB = \<lparr>leafVersion = 192, script = [7, 8], controlBlock = replicate 33 0\<rparr>"

definition sigsAB :: "TapScriptSig list" where
  "sigsAB = [\<lparr>pubkey = [7], leafHash = [7, 8, 9], signature = [1]\<rparr>,
             \<lparr>pubkey = [7], leafHash = [7, 8], signature = [2]\<rparr>,
             \<lparr>pubkey = [8], leafHash = [7, 8], signature = [3]\<rparr>]"

definition signedInput :: PsbtInput where
  "signedInput = emptyInput\<lparr>tapLeafScript := Some [leafA, leafB], tapScriptSig := Some sigsAB\<rparr>"



definition emptyOutput :: PsbtOutput where
  "emptyOutput = \<lparr>redeemScript = None, witnessScript = None, bip32Derivation = None,
                   tapInternalKey = None, tapBip32Derivation = None,
                   tapTree = None, outScript = None\<rparr>"

definition inputStore :: "PsbtInput store" where
  "inputStore r =
     (if r = 0 then emptyInput
      else if r = 1 then emptyInput\<lparr>tapInternalKey := Some [1]\<rparr>
      else if r = 2 then emptyInput\<lparr>redeemScript := Some [2]\<rparr>
      else if r = 3 then emptyInput\<lparr>redeemScript := Some [2], tapInternalKey := Some [1]\<rparr>
      else if r = 4 then emptyInput\<lparr>tapMerkleRoot := Some [1], tapLeafScript := Some [leafA]\<rparr>
      else if r = 5 then emptyInput\<lparr>tapMerkleRoot := Some (replicate 33 0 @ [7, 8])\<rparr>
      else emptyInput\<lparr>tapLeafScript := Some [leafB]\<rparr>)"

definition outputStore :: "PsbtOutput store" where
  "outputStore r =
     (if r = 0 then emptyOutput\<lparr>tapInternalKey := Some [1], outScript := Some [9]\<rparr>
      else if r = 1 then emptyOutput
      else if r = 2 then emptyOutput\<lparr>tapInternalKey := Some [1]\<rparr>
      else if r = 3 then emptyOutput\<lparr>outScript := Some [9]\<rparr>
      else if r = 4 then emptyOutput\<lparr>outScript := Some [0x51, 0x20, 1]\<rparr>
      else if r = 5 then emptyOutput\<lparr>tapInternalKey := Some [1],
                                       tapTree := Some \<lparr>leaves = sampleLeaves\<rparr>\<rparr>
      else if r = 6 then emptyOutput\<lparr>tapInternalKey := Some [2],
                                       outScript := Some [0x51, 0x20, 1, 1, 2, 3]\<rparr>
      else if r = 7 then emptyOutput\<lparr>tapInternalKey := Some [2],
                                       outScript := Some [0x51, 0x20, 2, 1, 2, 3]\<rparr>
      else if r = 8 then emptyOutput\<lparr>redeemScript := Some [5], outScript := Some [9]\<rparr>
      else emptyOutput\<lparr>tapInternalKey := Some [1],
                        tapTree := Some \<lparr>leaves = [deepLeaf 0, deepLeaf 0]\<rparr>\<rparr>)"

section \<open>Properties\<close>

subsection \<open>The tree codec\<close>

lemma loop_insertAllAt: "instertLeaves_loop ls t = insertAllAt 0 ls t"
  by (induction ls arbitrary: t) (auto split: sum.splits)

lemma toList_rec_general:
  "t \<noteq> Empty \<Longrightarrow> tapTreeToList_rec t acc d =
     (if d + nodeDepth t > MAX_TAPTREE_DEPTH then Inl DepthExceeded else Inr (acc @ flatten t d))"
proof (induction t arbitrary: acc d)
  case Empty
  then show ?case by simp
next
  case (Leaf lf)
  show ?case by (simp add: tapTreeToList_rec.simps[of "Leaf lf"])
next
  case (Branch l r)
  have L: "l \<noteq> Empty \<Longrightarrow> tapTreeToList_rec l acc (Suc d) =
      (if Suc d + nodeDepth l > MAX_TAPTREE_DEPTH then Inl DepthExceeded
       else Inr (acc @ flatten l (Suc d)))"
    using Branch.IH(1)[of acc "Suc d"] by simp
  have R: "\<And>acc'. r \<noteq> Empty \<Longrightarrow> tapTreeToList_rec r acc' (Suc d) =
      (if Suc d + nodeDepth r > MAX_TAPTREE_DEPTH then Inl DepthExceeded
       else Inr (acc' @ flatten r (Suc d)))"
    using Branch.IH(2)[of _ "Suc d"] by simp
  have U: "tapTreeToList_rec (Branch l r) acc d =
     (if d > MAX_TAPTREE_DEPTH then Inl DepthExceeded
      else case (if l \<noteq> Empty then tapTreeToList_rec l acc (d + 1) else Inr acc) of
             Inl e \<Rightarrow> Inl e
           | Inr leaves1 \<Rightarrow>
              (case (if r \<noteq> Empty then tapTreeToList_rec r leaves1 (d + 1) else Inr leaves1) of
                 Inl e \<Rightarrow> Inl e
               | Inr leaves2 \<Rightarrow> Inr leaves2))"
    by (subst tapTreeToList_rec.simps) simp
  show ?case unfolding U
    by (cases "l = Empty"; cases "r = Empty") (auto simp: L R)
qed

lemma insert_full:
  "complete t \<Longrightarrow> d + nodeDepth t \<le> MAX_TAPTREE_DEPTH \<Longrightarrow> instertLeafInTree x t d = Inr Empty"
proof (induction t arbitrary: d)
  case Empty then show ?case by simp
next
  case (Leaf lf)
  then show ?case by (simp add: instertLeafInTree.simps[of x "Leaf lf" d])
next
  case (Branch l r)
  have l: "l \<noteq> Empty" and r: "r \<noteq> Empty" using Branch.prems(1) by auto
  have "instertLeafInTree x l (Suc d) = Inr Empty" "instertLeafInTree x r (Suc d) = Inr Empty"
    using Branch l r by (auto simp: max_def split: if_splits)
  then show ?case using Branch.prems l r
    by (simp add: instertLeafInTree.simps[of x "Branch l r" d])
qed

lemma insert_Empty_as_Branch:
  "depth x \<noteq> d \<Longrightarrow> instertLeafInTree x Empty d = instertLeafInTree x (Branch Empty Empty) d"
  by (simp add: instertLeafInTree.simps[of x Empty d] instertLeafInTree.simps[of x "Branch Empty Empty" d]
      split: sum.splits)

lemma insertAll_left:
  "d \<le> MAX_TAPTREE_DEPTH \<Longrightarrow> \<forall>x\<in>set ls. depth x \<noteq> d \<Longrightarrow>
   insertAllAt (Suc d) ls a = Inr a' \<Longrightarrow> insertAllAt d ls (Branch a b) = Inr (Branch a' b)"
proof (induction ls arbitrary: a)
  case Nil then show ?case by simp
next
  case (Cons x ls)
  from Cons.prems(3) obtain a1 where a1: "instertLeafInTree x a (Suc d) = Inr a1" "a1 \<noteq> Empty"
    "insertAllAt (Suc d) ls a1 = Inr a'"
    by (auto split: sum.splits if_splits)
  have "instertLeafInTree x (Branch a b) d = Inr (Branch a1 b)"
    using Cons.prems(1,2) a1 by (simp add: instertLeafInTree.simps[of x "Branch a b" d])
  then show ?case using Cons.IH[OF Cons.prems(1) _ a1(3)] Cons.prems(2) by simp
qed

lemma insertAll_right:
  "d \<le> MAX_TAPTREE_DEPTH \<Longrightarrow> \<forall>x\<in>set ls. depth x \<noteq> d \<Longrightarrow> complete a \<Longrightarrow>
   Suc d + nodeDepth a \<le> MAX_TAPTREE_DEPTH \<Longrightarrow>
   insertAllAt (Suc d) ls b = Inr b' \<Longrightarrow> insertAllAt d ls (Branch a b) = Inr (Branch a b')"
proof (induction ls arbitrary: b)
  case Nil then show ?case by simp
next
  case (Cons x ls)
  from Cons.prems(5) obtain b1 where b1: "instertLeafInTree x b (Suc d) = Inr b1" "b1 \<noteq> Empty"
    "insertAllAt (Suc d) ls b1 = Inr b'"
    by (auto split: sum.splits if_splits)
  have "instertLeafInTree x a (Suc d) = Inr Empty"
    using insert_full[OF Cons.prems(3)] Cons.prems(4) by simp
  then have "instertLeafInTree x (Branch a b) d = Inr (Branch a b1)"
    using Cons.prems(1,2) b1 by (simp add: instertLeafInTree.simps[of x "Branch a b" d])
  then show ?case using Cons.IH[OF Cons.prems(1) _ Cons.prems(3,4) b1(3)] Cons.prems(2) by simp
qed

lemma insertAllAt_append:
  "insertAllAt d (xs @ ys) t =
     (case insertAllAt d xs t of Inl e \<Rightarrow> Inl e | Inr t' \<Rightarrow> insertAllAt d ys t')"
  by (induction xs arbitrary: t) (auto split: sum.splits)

lemma flatten_depth: "x \<in> set (flatten t d) \<Longrightarrow> d \<le> depth x"
  by (induction t arbitrary: d) (auto dest: Suc_leD)

lemma flatten_nonempty: "complete t \<Longrightarrow> flatten t d \<noteq> []"
  by (induction t arbitrary: d) auto

lemma complete_withDefaults: "complete t \<Longrightarrow> complete (withDefaults t)"
  by (induction t) auto

lemma withDefaults_Empty: "(withDefaults t = Empty) = (t = Empty)"
  by (cases t) simp_all

lemma nodeDepth_withDefaults: "nodeDepth (withDefaults t) = nodeDepth t"
  by (induction t) (simp_all add: withDefaults_Empty)

lemma insertAll_flatten:
  "complete t \<Longrightarrow> d + nodeDepth t \<le> MAX_TAPTREE_DEPTH \<Longrightarrow>
   insertAllAt d (flatten t d) Empty = Inr (withDefaults t)"
proof (induction t arbitrary: d)
  case Empty then show ?case by simp
next
  case (Leaf lf)
  then show ?case
    by (simp add: instertLeafInTree.simps[of _ Empty d])
next
  case (Branch l r)
  have l: "l \<noteq> Empty" "complete l" and r: "r \<noteq> Empty" "complete r" using Branch.prems(1) by auto
  have dl: "Suc d + nodeDepth l \<le> MAX_TAPTREE_DEPTH" and dr: "Suc d + nodeDepth r \<le> MAX_TAPTREE_DEPTH"
    and d: "d \<le> MAX_TAPTREE_DEPTH"
    using Branch.prems(2) l r by (auto simp: max_def split: if_splits)
  have il: "insertAllAt (Suc d) (flatten l (Suc d)) Empty = Inr (withDefaults l)"
    using Branch.IH(1)[OF l(2)] dl by simp
  have ir: "insertAllAt (Suc d) (flatten r (Suc d)) Empty = Inr (withDefaults r)"
    using Branch.IH(2)[OF r(2)] dr by simp
  have nl: "\<forall>x\<in>set (flatten l (Suc d)). depth x \<noteq> d" using flatten_depth[of _ l "Suc d"] by fastforce
  have nr: "\<forall>x\<in>set (flatten r (Suc d)). depth x \<noteq> d" using flatten_depth[of _ r "Suc d"] by fastforce
  obtain x xs where xs: "flatten l (Suc d) = x # xs"
    using flatten_nonempty[OF l(2), of "Suc d"] by (cases "flatten l (Suc d)") auto
  have "depth x \<noteq> d" using nl xs by simp
  then have "insertAllAt d (flatten l (Suc d)) Empty = insertAllAt d (flatten l (Suc d)) (Branch Empty Empty)"
    unfolding xs by (simp add: insert_Empty_as_Branch)
  also have "\<dots> = Inr (Branch (withDefaults l) Empty)"
    by (rule insertAll_left[OF d nl il])
  finally have left: "insertAllAt d (flatten l (Suc d)) Empty = Inr (Branch (withDefaults l) Empty)" .
  have right: "insertAllAt d (flatten r (Suc d)) (Branch (withDefaults l) Empty)
      = Inr (Branch (withDefaults l) (withDefaults r))"
    by (rule insertAll_right[OF d nr complete_withDefaults[OF l(2)] _ ir])
       (use dl in \<open>simp add: nodeDepth_withDefaults\<close>)
  show ?case by (simp add: insertAllAt_append left right)
qed

lemma fromList_is_loop: "tapTreeFromList (Some ls) = instertLeavesInTree ls"
proof (cases "length ls = 1 \<and> depth (ls ! 0) = 0")
  case True
  then obtain x where "ls = [x]" "depth x = 0" by (cases ls) auto
  then show ?thesis
    by (simp add: tapTreeFromList_def instertLeavesInTree_def instertLeafInTree.simps[of x Empty 0])
next
  case False
  then show ?thesis by (auto simp add: tapTreeFromList_def)
qed


lemma insert_leafList:
  "instertLeafInTree x t d = Inr t' \<Longrightarrow> t' \<noteq> Empty \<Longrightarrow>
   mset (leafList t' d) = add_mset (placed x) (mset (leafList t d))"
proof (induction x t d arbitrary: t' rule: instertLeafInTree.induct)
  case (1 leaf tree d)
  note unf = instertLeafInTree.simps[of leaf tree d]
  show ?case
  proof (cases "depth leaf = d")
    case True
    then show ?thesis using "1.prems" unf
      by (auto simp: placed_def split: if_splits)
  next
    case False
    have dle: "\<not> d > MAX_TAPTREE_DEPTH" and nl: "\<not> isTapleaf tree"
      using "1.prems" unf False by (auto split: if_splits)
    have tl: "mset (leafList tree d) = mset (leafList (child0 tree) (Suc d)) + mset (leafList (child1 tree) (Suc d))"
      using nl by (cases tree) auto
    show ?thesis
    proof (cases "instertLeafInTree leaf (child0 tree) (d + 1)")
      case (Inl e)
      then show ?thesis using "1.prems" unf False dle nl by simp
    next
      case (Inr leftSide)
      show ?thesis
      proof (cases "leftSide = Empty")
        case False
        then have "t' = Branch leftSide (child1 tree)"
          using "1.prems" unf \<open>depth leaf \<noteq> d\<close> dle nl Inr by simp
        moreover have "mset (leafList leftSide (d + 1)) = add_mset (placed leaf) (mset (leafList (child0 tree) (d + 1)))"
          using "1.IH"(1)[OF dle \<open>depth leaf \<noteq> d\<close> nl Inr False] .
        ultimately show ?thesis using tl by simp
      next
        case True
        show ?thesis
        proof (cases "instertLeafInTree leaf (child1 tree) (d + 1)")
          case (Inl e)
          then show ?thesis using "1.prems" unf \<open>depth leaf \<noteq> d\<close> dle nl Inr True by simp
        next
          case r: (Inr rightSide)
          then have t': "t' = Branch (child0 tree) rightSide" and ne: "rightSide \<noteq> Empty"
            using "1.prems" unf \<open>depth leaf \<noteq> d\<close> dle nl Inr True by (auto split: if_splits)
          have "mset (leafList rightSide (d + 1)) = add_mset (placed leaf) (mset (leafList (child1 tree) (d + 1)))"
            using "1.IH"(2)[OF dle \<open>depth leaf \<noteq> d\<close> nl Inr _ r ne] True by simp
          then show ?thesis using tl t' by simp
        qed
      qed
    qed
  qed
qed

lemma insertAllAt_leafList:
  "insertAllAt d ls t = Inr t' \<Longrightarrow>
   mset (leafList t' d) = mset (map placed ls) + mset (leafList t d)"
proof (induction ls arbitrary: t)
  case Nil then show ?case by simp
next
  case (Cons x ls)
  from Cons.prems obtain t1 where t1: "instertLeafInTree x t d = Inr t1" "t1 \<noteq> Empty"
    "insertAllAt d ls t1 = Inr t'"
    by (auto split: sum.splits if_splits)
  show ?case using Cons.IH[OF t1(3)] insert_leafList[OF t1(1,2)] by simp
qed

lemma insert_deep_fails:
  "depth x > MAX_TAPTREE_DEPTH \<Longrightarrow> instertLeafInTree x t d = Inr t' \<Longrightarrow> t' = Empty"
proof (induction x t d arbitrary: t' rule: instertLeafInTree.induct)
  case (1 leaf tree d)
  note unf = instertLeafInTree.simps[of leaf tree d]
  have dle: "\<not> d > MAX_TAPTREE_DEPTH" using "1.prems" unf by (auto split: if_splits)
  then have ne: "depth leaf \<noteq> d" using "1.prems"(1) by auto
  show ?case
  proof (cases "isTapleaf tree")
    case True
    then show ?thesis using "1.prems" unf dle ne by simp
  next
    case nl: False
    show ?thesis
    proof (cases "instertLeafInTree leaf (child0 tree) (d + 1)")
      case (Inl e)
      then show ?thesis using "1.prems" unf dle ne nl by simp
    next
      case (Inr leftSide)
      have le: "leftSide = Empty" using "1.IH"(1)[OF dle ne nl "1.prems"(1) Inr] .
      show ?thesis
      proof (cases "instertLeafInTree leaf (child1 tree) (d + 1)")
        case (Inl e)
        then show ?thesis using "1.prems" unf dle ne nl Inr le by simp
      next
        case r: (Inr rightSide)
        have "rightSide = Empty" using "1.IH"(2)[OF dle ne nl Inr _ "1.prems"(1) r] le by simp
        then show ?thesis using "1.prems" unf dle ne nl Inr le r by simp
      qed
    qed
  qed
qed

lemma insert_error: "instertLeafInTree x t d = Inl e \<Longrightarrow> e = DepthExceeded"
proof (induction x t d rule: instertLeafInTree.induct)
  case (1 leaf tree d)
  note unf = instertLeafInTree.simps[of leaf tree d]
  show ?case
  proof (cases "d > MAX_TAPTREE_DEPTH \<or> depth leaf = d \<or> isTapleaf tree")
    case True
    then show ?thesis using "1.prems" unf by (auto split: if_splits)
  next
    case False
    then have c: "\<not> d > MAX_TAPTREE_DEPTH" "depth leaf \<noteq> d" "\<not> isTapleaf tree" by auto
    show ?thesis
    proof (cases "instertLeafInTree leaf (child0 tree) (d + 1)")
      case (Inl e')
      then show ?thesis using "1.prems" unf c "1.IH"(1)[OF c] by simp
    next
      case (Inr leftSide)
      then show ?thesis using "1.prems" unf c "1.IH"(2)[OF c Inr]
        by (auto split: if_splits sum.splits)
    qed
  qed
qed




lemma complete_leaf_depth:
  "complete t \<Longrightarrow> list_all (\<lambda>p. fst p \<le> MAX_TAPTREE_DEPTH) (leafList t d) \<Longrightarrow>
   d + nodeDepth t \<le> MAX_TAPTREE_DEPTH"
proof (induction t arbitrary: d)
  case (Branch l r)
  have "l \<noteq> Empty" "r \<noteq> Empty" using Branch.prems(1) by auto
  moreover have "Suc d + nodeDepth l \<le> MAX_TAPTREE_DEPTH" "Suc d + nodeDepth r \<le> MAX_TAPTREE_DEPTH"
    using Branch.IH(1)[of "Suc d"] Branch.IH(2)[of "Suc d"] Branch.prems by auto
  ultimately show ?case by simp
qed auto

lemma versions_leafList:
  "list_all (\<lambda>p. case version (snd p) of None \<Rightarrow> False | Some v \<Rightarrow> v \<noteq> 0) (leafList t d)
   \<Longrightarrow> versionsSet t"
  by (induction t arbitrary: d) auto

lemma versionsSet_withDefaults: "versionsSet t \<Longrightarrow> withDefaults t = t"
  by (induction t) (auto simp: versionOrDefault_def split: option.splits)

lemma insertAll_deep_fails:
  "\<exists>x\<in>set ls. depth x > MAX_TAPTREE_DEPTH \<Longrightarrow>
   insertAllAt d ls t = Inl DepthExceeded \<or> insertAllAt d ls t = Inl MalformedTapTree"
proof (induction ls arbitrary: t)
  case Nil then show ?case by simp
next
  case (Cons x ls)
  show ?case
  proof (cases "instertLeafInTree x t d")
    case (Inl e)
    then show ?thesis using insert_error[OF Inl] by simp
  next
    case (Inr t1)
    show ?thesis
    proof (cases "t1 = Empty")
      case True then show ?thesis using Inr by simp
    next
      case False
      then have "\<not> depth x > MAX_TAPTREE_DEPTH" using insert_deep_fails[OF _ Inr] by blast
      then have "\<exists>y\<in>set ls. depth y > MAX_TAPTREE_DEPTH" using Cons.prems by auto
      then show ?thesis using Cons.IH[of t1] Inr False by simp
    qed
  qed
qed




text \<open>
  C1 (as amended): for every complete tree no deeper than the cap,
  \<open>tapTreeToList\<close> answers the depth-first list of its leaves and \<open>tapTreeFromList\<close>
  of that list answers the tree with each absent or zero leaf version replaced by the
  default version; so the tree itself comes back when every leaf carries a version
  other than 0. The same holds for every complete tree that \<open>tapTreeFromList\<close> answers
  on a list whose leaf versions are all other than 0.
\<close>

theorem roundTrip_law:
  "(complete t \<and> nodeDepth t \<le> MAX_TAPTREE_DEPTH \<longrightarrow>
      tapTreeToList t = Inr (flatten t 0) \<and>
      roundTrip t = Inr (withDefaults t) \<and>
      (versionsSet t \<longrightarrow> roundTrip t = Inr t)) \<and>
   (tapTreeFromList (Some ls) = Inr t' \<and> complete t' \<and> list_all (\<lambda>x. leafVersion x \<noteq> 0) ls \<longrightarrow>
      roundTrip t' = Inr t')"
proof -
  have A: "tapTreeToList t = Inr (flatten t 0) \<and> roundTrip t = Inr (withDefaults t)"
    if c: "complete t" and d: "nodeDepth t \<le> MAX_TAPTREE_DEPTH" for t
  proof -
    have ne: "t \<noteq> Empty" and tt: "isTaptree t" using c by (induction t) auto
    have tl: "tapTreeToList t = Inr (flatten t 0)"
      using toList_rec_general[OF ne, of "[]" 0] d tt by (simp add: tapTreeToList_def)
    have "tapTreeFromList (Some (flatten t 0)) = Inr (withDefaults t)"
      using insertAll_flatten[OF c, of 0] d
      by (simp add: fromList_is_loop instertLeavesInTree_def loop_insertAllAt)
    then show ?thesis using tl by (simp add: roundTrip_def)
  qed
  have B: "roundTrip t' = Inr t'"
    if f: "tapTreeFromList (Some ls) = Inr t'" and c: "complete t'"
      and v: "list_all (\<lambda>x. leafVersion x \<noteq> 0) ls"
  proof -
    have ins: "insertAllAt 0 ls Empty = Inr t'"
      using f by (simp add: fromList_is_loop instertLeavesInTree_def loop_insertAllAt)
    have ms: "mset (leafList t' 0) = mset (map placed ls)"
      using insertAllAt_leafList[OF ins] by simp
    then have st: "set (leafList t' 0) = placed ` set ls"
      by (metis set_mset_mset set_map)
    have dp: "\<forall>x\<in>set ls. depth x \<le> MAX_TAPTREE_DEPTH"
    proof (rule ccontr)
      assume "\<not> ?thesis"
      then have "\<exists>x\<in>set ls. depth x > MAX_TAPTREE_DEPTH" by (auto simp: not_le)
      from insertAll_deep_fails[OF this, of 0 Empty] ins show False by simp
    qed
    have "list_all (\<lambda>p. fst p \<le> MAX_TAPTREE_DEPTH) (leafList t' 0)"
      using st dp by (auto simp: list_all_iff placed_def)
    then have d: "nodeDepth t' \<le> MAX_TAPTREE_DEPTH"
      using complete_leaf_depth[OF c, of 0] by simp
    have "list_all (\<lambda>p. case version (snd p) of None \<Rightarrow> False | Some v \<Rightarrow> v \<noteq> 0) (leafList t' 0)"
      using st v by (auto simp: list_all_iff placed_def)
    then have "versionsSet t'" by (rule versions_leafList)
    then show ?thesis using A[OF c d] by (simp add: versionsSet_withDefaults)
  qed
  show ?thesis using A B by (auto simp: versionsSet_withDefaults)
qed

text \<open>
  Witness for C1: the tree of three leaves (depths 1, 2, 2) and its list.
\<close>

theorem roundTrip_law_witness:
  "complete sampleTree \<and> nodeDepth sampleTree \<le> MAX_TAPTREE_DEPTH \<and> versionsSet sampleTree \<and>
   tapTreeFromList (Some sampleLeaves) = Inr sampleTree \<and>
   list_all (\<lambda>x. leafVersion x \<noteq> 0) sampleLeaves \<and>
   tapTreeToList sampleTree = Inr sampleLeaves \<and>
   roundTrip sampleTree = Inr sampleTree"
proof -
  have h1: "complete sampleTree" by code_simp
  have h2: "nodeDepth sampleTree \<le> MAX_TAPTREE_DEPTH" by code_simp
  have h3: "versionsSet sampleTree" by code_simp
  have h4: "tapTreeFromList (Some sampleLeaves) = Inr sampleTree" by code_simp
  have h5: "list_all (\<lambda>x. leafVersion x \<noteq> 0) sampleLeaves" by code_simp
  have h6: "flatten sampleTree 0 = sampleLeaves" by code_simp
  show ?thesis
    using roundTrip_law[of sampleTree sampleLeaves sampleTree] h1 h2 h3 h4 h5 h6 by metis
qed

text \<open>
  Counterexample to C1 as stated: the one-leaf tree with leaf version 0 is what
  \<open>tapTreeFromList\<close> answers on a one-leaf list, and it does not come back: its
  version comes back as \<open>0xc0\<close>. Nor does the one-leaf tree without a version.
\<close>

theorem roundTrip_version_counterexample:
  "tapTreeFromList (Some [\<lparr>leafVersion = 0, script = [], depth = 0\<rparr>])
     = Inr (Leaf \<lparr>leafOutput = [], version = Some 0\<rparr>) \<and>
   isTaptree (Leaf \<lparr>leafOutput = [], version = Some 0\<rparr>) \<and>
   roundTrip (Leaf \<lparr>leafOutput = [], version = Some 0\<rparr>)
     = Inr (Leaf \<lparr>leafOutput = [], version = Some 192\<rparr>) \<and>
   roundTrip (Leaf \<lparr>leafOutput = [], version = Some 0\<rparr>)
     \<noteq> Inr (Leaf \<lparr>leafOutput = [], version = Some 0\<rparr>) \<and>
   isTaptree (Leaf \<lparr>leafOutput = [], version = None\<rparr>) \<and>
   roundTrip (Leaf \<lparr>leafOutput = [], version = None\<rparr>)
     = Inr (Leaf \<lparr>leafOutput = [], version = Some 192\<rparr>) \<and>
   roundTrip (Leaf \<lparr>leafOutput = [], version = None\<rparr>)
     \<noteq> Inr (Leaf \<lparr>leafOutput = [], version = None\<rparr>)"
  by code_simp

text \<open>
  C7: the code at the list of one leaf that claims depth 1. \<open>tapTreeFromList\<close> answers
  a tree whose right slot is empty, where the claim has a final tree with an empty slot
  rejected with \<open>MalformedTapTree\<close>. Two leaves that both claim depth 0 are rejected
  so: the second finds no room.
\<close>

theorem tapTreeFromList_keeps_empty_slot:
  "tapTreeFromList (Some [\<lparr>leafVersion = 192, script = [], depth = 1\<rparr>])
     = Inr (Branch (Leaf \<lparr>leafOutput = [], version = Some 192\<rparr>) Empty) \<and>
   \<not> complete (Branch (Leaf \<lparr>leafOutput = [], version = Some 192\<rparr>) Empty) \<and>
   tapTreeFromList (Some [deepLeaf 0, deepLeaf 0]) = Inl MalformedTapTree"
  by code_simp




text \<open>
  C10: for the empty leaf list, and for an omitted argument, \<open>tapTreeFromList\<close> returns
  normally and the value returned is \<open>undefined\<close>: neither a tree nor an error.
\<close>

theorem tapTreeFromList_empty:
  "tapTreeFromList None = Inr Empty \<and> tapTreeFromList (Some []) = Inr Empty"
  by (simp add: tapTreeFromList_def instertLeavesInTree_def)

subsection \<open>The finalizer\<close>

lemma sortInsert_key:
  "(\<And>a b. (cmp a b \<le> 0) = (k a \<le> k b)) \<Longrightarrow> sortInsert cmp x ys = insort_key k x ys"
  by (induction ys) simp_all

lemma js_sort_key:
  "(\<And>a b. (cmp a b \<le> 0) = (k a \<le> k b)) \<Longrightarrow> js_sort cmp xs = sort_key k xs"
  by (induction xs) (simp_all add: js_sort_def sortInsert_key sort_key_def)



lemma canFinalizeLeaf_qualifies: "canFinalizeLeaf X l sigs target = qualifies X sigs target l"
  by (cases target) (auto simp: canFinalizeLeaf_def qualifies_def leafHashOf_def find_None_iff Let_def)

lemma find_fst_result:
  "fst (findTapLeafToFinalize X input i target) =
     (if \<not> nonEmptyArray (tapScriptSig input) then Inl (NoScriptSignature i)
      else case find (qualifies X (orEmpty (tapScriptSig input)) target)
                  (sort_key cbLength (orEmpty (tapLeafScript input))) of
             None \<Rightarrow> Inl (NoMatchingLeaf i) | Some l \<Rightarrow> Inr l)"
proof -
  have s: "js_sort (\<lambda>a b. int (length (controlBlock a)) - int (length (controlBlock b))) xs
            = sort_key cbLength xs" for xs :: "TapLeafScript list"
    by (rule js_sort_key) (simp add: cbLength_def)
  have q: "(\<lambda>leaf. canFinalizeLeaf X leaf sg target) = qualifies X sg target" for sg
    by (rule ext) (rule canFinalizeLeaf_qualifies)
  show ?thesis
    by (cases "tapLeafScript input")
       (simp_all add: findTapLeafToFinalize_def Let_def s q orEmpty_def split: option.splits)
qed


lemma find_first_sorted:
  "sorted (map k xs) \<Longrightarrow> find P xs = Some l \<Longrightarrow> l \<in> set xs \<and> P l \<and> (\<forall>l'\<in>set xs. P l' \<longrightarrow> k l \<le> k l')"
proof (induction xs)
  case Nil then show ?case by simp
next
  case (Cons x xs)
  then show ?case by (auto split: if_splits)
qed

text \<open>
  C3: leaf selection fails with \<open>NoScriptSignature\<close> when there is no signature.
  Otherwise its result is the first qualifying entry of the \<open>tapLeafScript\<close> entries
  put in ascending order of control-block length (a reordering of the entries that keeps
  entries of equal length in their order), and \<open>NoMatchingLeaf\<close> when no entry
  qualifies. So a leaf that is selected is an entry that qualifies, and no qualifying
  entry has a shorter control block.
\<close>

theorem findTapLeafToFinalize_selection:
  "(\<not> nonEmptyArray (tapScriptSig input) \<longrightarrow>
      fst (findTapLeafToFinalize X input i target) = Inl (NoScriptSignature i)) \<and>
   (nonEmptyArray (tapScriptSig input) \<longrightarrow>
      (\<exists>ordered.
         mset ordered = mset (orEmpty (tapLeafScript input)) \<and>
         sorted (map cbLength ordered) \<and>
         (\<forall>n. filter (\<lambda>l. cbLength l = n) ordered
               = filter (\<lambda>l. cbLength l = n) (orEmpty (tapLeafScript input))) \<and>
         fst (findTapLeafToFinalize X input i target) =
           (case find (qualifies X (orEmpty (tapScriptSig input)) target) ordered of
              None \<Rightarrow> Inl (NoMatchingLeaf i) | Some l \<Rightarrow> Inr l))) \<and>
   (fst (findTapLeafToFinalize X input i target) = Inr leaf \<longrightarrow>
      leaf \<in> set (orEmpty (tapLeafScript input)) \<and>
      qualifies X (orEmpty (tapScriptSig input)) target leaf \<and>
      (\<forall>l'\<in>set (orEmpty (tapLeafScript input)).
         qualifies X (orEmpty (tapScriptSig input)) target l' \<longrightarrow> cbLength leaf \<le> cbLength l')) \<and>
   (nonEmptyArray (tapScriptSig input) \<longrightarrow>
      (fst (findTapLeafToFinalize X input i target) = Inl (NoMatchingLeaf i)) =
      (\<forall>l\<in>set (orEmpty (tapLeafScript input)).
         \<not> qualifies X (orEmpty (tapScriptSig input)) target l))"
proof -
  let ?ls = "orEmpty (tapLeafScript input)"
  let ?Q = "qualifies X (orEmpty (tapScriptSig input)) target"
  let ?r = "fst (findTapLeafToFinalize X input i target)"
  note r = find_fst_result[of X input i target]
  have A: "\<not> nonEmptyArray (tapScriptSig input) \<Longrightarrow> ?r = Inl (NoScriptSignature i)"
    using r by simp
  have B: "\<exists>ordered. mset ordered = mset ?ls \<and> sorted (map cbLength ordered) \<and>
         (\<forall>n. filter (\<lambda>l. cbLength l = n) ordered = filter (\<lambda>l. cbLength l = n) ?ls) \<and>
         ?r = (case find ?Q ordered of None \<Rightarrow> Inl (NoMatchingLeaf i) | Some l \<Rightarrow> Inr l)"
    if "nonEmptyArray (tapScriptSig input)"
    by (rule exI[of _ "sort_key cbLength ?ls"]) (use that r in \<open>simp add: sort_key_stable\<close>)
  have C: "leaf \<in> set ?ls \<and> ?Q leaf \<and> (\<forall>l'\<in>set ?ls. ?Q l' \<longrightarrow> cbLength leaf \<le> cbLength l')"
    if "?r = Inr leaf"
  proof -
    have "find ?Q (sort_key cbLength ?ls) = Some leaf"
      using that r by (auto split: if_splits option.splits)
    from find_first_sorted[OF _ this, of cbLength] show ?thesis by simp
  qed
  have D: "(?r = Inl (NoMatchingLeaf i)) = (\<forall>l\<in>set ?ls. \<not> ?Q l)"
    if ne: "nonEmptyArray (tapScriptSig input)"
  proof (cases "find ?Q (sort_key cbLength ?ls)")
    case None
    have 1: "?r = Inl (NoMatchingLeaf i)" using ne r None by simp
    have 2: "\<forall>l\<in>set ?ls. \<not> ?Q l" using None by (simp add: find_None_iff)
    show ?thesis using 1 2 by simp
  next
    case (Some l)
    from find_first_sorted[OF _ this, of cbLength] have "l \<in> set ?ls" "?Q l" by simp_all
    then show ?thesis using ne r Some by auto
  qed
  show ?thesis using A B C D by blast
qed

text \<open>
  Witness for C3: two signed leaves with control blocks of 65 and 33 bytes and no target
  hash: the leaf with the 33 bytes is selected; an input without signatures.
\<close>

theorem findTapLeafToFinalize_selection_witness:
  "nonEmptyArray (tapScriptSig signedInput) \<and>
   fst (findTapLeafToFinalize samplePrims signedInput 0 None) = Inr leafB \<and>
   leafB \<in> set (orEmpty (tapLeafScript signedInput)) \<and>
   qualifies samplePrims (orEmpty (tapScriptSig signedInput)) None leafB \<and>
   leafA \<in> set (orEmpty (tapLeafScript signedInput)) \<and>
   qualifies samplePrims (orEmpty (tapScriptSig signedInput)) None leafA \<and>
   cbLength leafB \<le> cbLength leafA \<and>
   \<not> nonEmptyArray (tapScriptSig emptyInput) \<and>
   fst (findTapLeafToFinalize samplePrims emptyInput 5 None) = Inl (NoScriptSignature 5)"
proof -
  have h1: "nonEmptyArray (tapScriptSig signedInput)" by code_simp
  have h2: "fst (findTapLeafToFinalize samplePrims signedInput 0 None) = Inr leafB" by code_simp
  have h3: "leafA \<in> set (orEmpty (tapLeafScript signedInput))" by code_simp
  have h4: "qualifies samplePrims (orEmpty (tapScriptSig signedInput)) None leafA" by code_simp
  have h5: "\<not> nonEmptyArray (tapScriptSig emptyInput)" by code_simp
  show ?thesis
    using findTapLeafToFinalize_selection[of signedInput samplePrims 0 None leafB]
      findTapLeafToFinalize_selection[of emptyInput samplePrims 5 None leafB]
      h1 h2 h3 h4 h5 by blast
qed










text \<open>
  C9: the code at an input whose \<open>tapLeafScript\<close> holds the leaf with 65 bytes before
  the leaf with 33 bytes. After \<open>tapScriptFinalizer\<close> the array of the input holds them
  in the other order, when the call succeeds and when it fails with \<open>NoMatchingLeaf\<close>.
\<close>

theorem finalizer_reorders_tapLeafScript:
  "tapLeafScript signedInput = Some [leafA, leafB] \<and>
   fst (tapScriptFinalizer samplePrims 0 signedInput None) = Inr ([3, 2, 7, 8] @ replicate 33 0) \<and>
   tapLeafScript (snd (tapScriptFinalizer samplePrims 0 signedInput None)) = Some [leafB, leafA] \<and>
   fst (tapScriptFinalizer samplePrims 0 signedInput (Some [1])) = Inl (NoMatchingLeaf 0) \<and>
   tapLeafScript (snd (tapScriptFinalizer samplePrims 0 signedInput (Some [1]))) = Some [leafB, leafA]"
  by code_simp

subsection \<open>The field checks\<close>

lemma checkIfTapLeafInTree_no_mixed:
  "checkIfTapLeafInTree X a b action \<noteq> Inl (MixedFieldsError action')"
  by (simp add: checkIfTapLeafInTree_def Let_def)

text \<open>
  C4: \<open>checkTaprootInputFields\<close> fails with \<open>MixedFieldsError\<close> exactly when the
  old input is a Taproot input and the new one has a non-Taproot field, or the old one has
  a non-Taproot field and the new one is a Taproot input, or both are the same object
  (or, read as values, equal) and it is both. A non-Taproot field is \<open>redeemScript\<close>,
  \<open>witnessScript\<close> or a non-empty \<open>bip32Derivation\<close>.
\<close>

theorem checkTaprootInputFields_mixed:
  "((checkTaprootInputFields X h old new action = Inl (MixedFieldsError action)) =
      ((isTaprootInput X (h old) \<and> hasNonTaprootFields (h new)) \<or>
       (hasNonTaprootFields (h old) \<and> isTaprootInput X (h new)) \<or>
       (old = new \<and> isTaprootInput X (h new) \<and> hasNonTaprootFields (h new)))) \<and>
   ((checkTaprootInputFields X h old new action = Inl (MixedFieldsError action)) =
      ((isTaprootInput X (h old) \<and> hasNonTaprootFields (h new)) \<or>
       (hasNonTaprootFields (h old) \<and> isTaprootInput X (h new)) \<or>
       (h old = h new \<and> isTaprootInput X (h new) \<and> hasNonTaprootFields (h new)))) \<and>
   (hasNonTaprootFields (h new) =
      (redeemScript (h new) \<noteq> None \<or> witnessScript (h new) \<noteq> None \<or>
       (bip32Derivation (h new) \<noteq> None \<and> bip32Derivation (h new) \<noteq> Some [])))"
proof -
  have 1: "(checkTaprootInputFields X h old new action = Inl (MixedFieldsError action)) =
      ((isTaprootInput X (h old) \<and> hasNonTaprootFields (h new)) \<or>
       (hasNonTaprootFields (h old) \<and> isTaprootInput X (h new)) \<or>
       (old = new \<and> isTaprootInput X (h new) \<and> hasNonTaprootFields (h new)))"
    using checkIfTapLeafInTree_no_mixed[of X "h old" "h new" action action]
    by (simp add: checkTaprootInputFields_def checkMixedTaprootAndNonTaprootInputFields_def Let_def)
  have 2: "(old = new \<and> isTaprootInput X (h new) \<and> hasNonTaprootFields (h new))
      \<longrightarrow> (h old = h new \<and> isTaprootInput X (h new) \<and> hasNonTaprootFields (h new))"
    by simp
  have 3: "(h old = h new \<and> isTaprootInput X (h new) \<and> hasNonTaprootFields (h new))
      \<longrightarrow> (isTaprootInput X (h old) \<and> hasNonTaprootFields (h new))"
    by simp
  have 4: "hasNonTaprootFields (h new) =
      (redeemScript (h new) \<noteq> None \<or> witnessScript (h new) \<noteq> None \<or>
       (bip32Derivation (h new) \<noteq> None \<and> bip32Derivation (h new) \<noteq> Some []))"
    by (auto simp: hasNonTaprootFields_def nonEmptyArray_def split: option.splits)
  show ?thesis using 1 2 3 4 by blast
qed

text \<open>
  Witness for C4: an input with only \<open>tapInternalKey\<close> against one with only
  \<open>redeemScript\<close>, in both directions; one object with both; one Taproot input against
  itself.
\<close>

theorem checkTaprootInputFields_mixed_witness:
  "isTaprootInput samplePrims (inputStore 1) \<and> hasNonTaprootFields (inputStore 2) \<and>
   checkTaprootInputFields samplePrims inputStore 1 2 ''updateInput''
     = Inl (MixedFieldsError ''updateInput'') \<and>
   checkTaprootInputFields samplePrims inputStore 2 1 ''updateInput''
     = Inl (MixedFieldsError ''updateInput'') \<and>
   isTaprootInput samplePrims (inputStore 3) \<and> hasNonTaprootFields (inputStore 3) \<and>
   checkTaprootInputFields samplePrims inputStore 3 3 ''updateInput''
     = Inl (MixedFieldsError ''updateInput'') \<and>
   \<not> hasNonTaprootFields (inputStore 1) \<and>
   checkTaprootInputFields samplePrims inputStore 1 1 ''updateInput''
     \<noteq> Inl (MixedFieldsError ''updateInput'')"
proof -
  have h1: "isTaprootInput samplePrims (inputStore 1)" by code_simp
  have h2: "hasNonTaprootFields (inputStore 2)" by code_simp
  have h3: "isTaprootInput samplePrims (inputStore 3)" by code_simp
  have h4: "hasNonTaprootFields (inputStore 3)" by code_simp
  have h5: "\<not> hasNonTaprootFields (inputStore 1)" by code_simp
  show ?thesis
    using checkTaprootInputFields_mixed[of samplePrims inputStore 1 2 "''updateInput''"]
      checkTaprootInputFields_mixed[of samplePrims inputStore 2 1 "''updateInput''"]
      checkTaprootInputFields_mixed[of samplePrims inputStore 3 3 "''updateInput''"]
      checkTaprootInputFields_mixed[of samplePrims inputStore 1 1 "''updateInput''"]
      h1 h2 h3 h4 h5 by blast
qed

lemma isTapLeafInTree_Some: "isTapLeafInTree X l (Some r) = pathReconciles X l r"
  by (simp add: isTapLeafInTree_def pathReconciles_def leafHashOf_def Let_def)

lemma checkIfTapLeafInTree_cases:
  "checkIfTapLeafInTree X a b action =
     (case tapMerkleRoot b of
        Some r \<Rightarrow>
          if (\<forall>l\<in>set (orEmpty (tapLeafScript b)) \<union> set (orEmpty (tapLeafScript a)).
                pathReconciles X l r)
          then Inr () else Inl (LeafNotInTree action)
      | None \<Rightarrow>
          (case tapMerkleRoot a of
             Some r \<Rightarrow>
               if (\<forall>l\<in>set (orEmpty (tapLeafScript b)). pathReconciles X l r)
               then Inr () else Inl (LeafNotInTree action)
           | None \<Rightarrow> Inr ()))"
  by (auto simp: checkIfTapLeafInTree_def Let_def list_all_iff isTapLeafInTree_Some
           split: option.splits)

text \<open>
  C5 (as amended): when the mixed-field check passes, \<open>checkTaprootInputFields\<close> fails
  with \<open>LeafNotInTree\<close> exactly when the new input has a Merkle root and some
  \<open>tapLeafScript\<close> entry of the new or of the old input does not reconcile with it, or
  the new input has no root, the old one has one, and some entry of the new input does
  not reconcile with it. With no root on either side the check passes, and membership
  without a root holds.
\<close>

theorem checkTaprootInputFields_leaf_in_tree:
  "(checkMixedTaprootAndNonTaprootInputFields X h old new action = Inr () \<and>
    tapMerkleRoot (h new) = Some r \<longrightarrow>
      (checkTaprootInputFields X h old new action = Inl (LeafNotInTree action)) =
        (\<exists>l\<in>set (orEmpty (tapLeafScript (h new))) \<union> set (orEmpty (tapLeafScript (h old))).
           \<not> pathReconciles X l r) \<and>
      (checkTaprootInputFields X h old new action = Inr ()) =
        (\<forall>l\<in>set (orEmpty (tapLeafScript (h new))) \<union> set (orEmpty (tapLeafScript (h old))).
           pathReconciles X l r)) \<and>
   (checkMixedTaprootAndNonTaprootInputFields X h old new action = Inr () \<and>
    tapMerkleRoot (h new) = None \<and> tapMerkleRoot (h old) = Some r' \<longrightarrow>
      (checkTaprootInputFields X h old new action = Inl (LeafNotInTree action)) =
        (\<exists>l\<in>set (orEmpty (tapLeafScript (h new))). \<not> pathReconciles X l r') \<and>
      (checkTaprootInputFields X h old new action = Inr ()) =
        (\<forall>l\<in>set (orEmpty (tapLeafScript (h new))). pathReconciles X l r')) \<and>
   (checkMixedTaprootAndNonTaprootInputFields X h old new action = Inr () \<and>
    tapMerkleRoot (h new) = None \<and> tapMerkleRoot (h old) = None \<longrightarrow>
      checkTaprootInputFields X h old new action = Inr ()) \<and>
   isTapLeafInTree X leaf None \<and>
   isTapLeafInTree X leaf (Some r) = pathReconciles X leaf r"
proof -
  have N: "isTapLeafInTree X leaf None" by (simp add: isTapLeafInTree_def)
  have M: "checkMixedTaprootAndNonTaprootInputFields X h old new action = Inr () \<Longrightarrow>
     checkTaprootInputFields X h old new action
       = checkIfTapLeafInTree X (h old) (h new) action"
    by (simp add: checkTaprootInputFields_def)
  show ?thesis
    by (intro conjI impI; (elim conjE)?)
       (auto simp add: M checkIfTapLeafInTree_cases N isTapLeafInTree_Some)
qed

text \<open>
  Witness for C5: a new root with which the old leaf reconciles; an old root with which
  the new leaf does not; no root at all.
\<close>

theorem checkTaprootInputFields_leaf_in_tree_witness:
  "checkMixedTaprootAndNonTaprootInputFields samplePrims inputStore 6 5 ''u'' = Inr () \<and>
   tapMerkleRoot (inputStore 5) = Some (replicate 33 0 @ [7, 8]) \<and>
   checkTaprootInputFields samplePrims inputStore 6 5 ''u'' = Inr () \<and>
   checkMixedTaprootAndNonTaprootInputFields samplePrims inputStore 4 6 ''u'' = Inr () \<and>
   tapMerkleRoot (inputStore 6) = None \<and> tapMerkleRoot (inputStore 4) = Some [1] \<and>
   checkTaprootInputFields samplePrims inputStore 4 6 ''u'' = Inl (LeafNotInTree ''u'') \<and>
   checkMixedTaprootAndNonTaprootInputFields samplePrims inputStore 0 6 ''u'' = Inr () \<and>
   tapMerkleRoot (inputStore 0) = None \<and>
   checkTaprootInputFields samplePrims inputStore 0 6 ''u'' = Inr ()"
proof -
  have h1: "checkMixedTaprootAndNonTaprootInputFields samplePrims inputStore 6 5 ''u'' = Inr ()"
    by code_simp
  have h2: "tapMerkleRoot (inputStore 5) = Some (replicate 33 0 @ [7, 8])" by code_simp
  have h3: "\<forall>l\<in>set (orEmpty (tapLeafScript (inputStore 5))) \<union> set (orEmpty (tapLeafScript (inputStore 6))).
              pathReconciles samplePrims l (replicate 33 0 @ [7, 8])" by code_simp
  have h4: "checkMixedTaprootAndNonTaprootInputFields samplePrims inputStore 4 6 ''u'' = Inr ()"
    by code_simp
  have h5: "tapMerkleRoot (inputStore 6) = None" "tapMerkleRoot (inputStore 4) = Some [1]"
    "tapMerkleRoot (inputStore 0) = None"
    by code_simp+
  have h6: "\<exists>l\<in>set (orEmpty (tapLeafScript (inputStore 6))). \<not> pathReconciles samplePrims l [1]"
    by code_simp
  have h7: "checkMixedTaprootAndNonTaprootInputFields samplePrims inputStore 0 6 ''u'' = Inr ()"
    by code_simp
  have a: "checkTaprootInputFields samplePrims inputStore 6 5 ''u'' = Inr ()"
    using checkTaprootInputFields_leaf_in_tree[of samplePrims inputStore 6 5 "''u''"
        "replicate 33 0 @ [7, 8]"] h1 h2 h3 by simp
  have b: "checkTaprootInputFields samplePrims inputStore 4 6 ''u'' = Inl (LeafNotInTree ''u'')"
    using checkTaprootInputFields_leaf_in_tree[of samplePrims inputStore 4 6 "''u''" _ "[1]"]
      h4 h5 h6 by simp
  have c: "checkTaprootInputFields samplePrims inputStore 0 6 ''u'' = Inr ()"
    using checkTaprootInputFields_leaf_in_tree[of samplePrims inputStore 0 6 "''u''"]
      h7 h5 by simp
  show ?thesis using a b c h1 h2 h4 h5 h7 by simp
qed

text \<open>
  Counterexample to C5 as stated: the old input has a root and a leaf that is not in the
  tree of that root, the new input has nothing, and the check passes.
\<close>

theorem old_leaves_unchecked_counterexample:
  "tapMerkleRoot (inputStore 4) = Some [1] \<and>
   tapLeafScript (inputStore 4) = Some [leafA] \<and>
   \<not> isTapLeafInTree samplePrims leafA (Some [1]) \<and>
   checkTaprootInputFields samplePrims inputStore 4 0 ''updateInput'' = Inr ()"
  by code_simp

text \<open>
  C6 (as amended): when the mixed-field check passes, the new output has
  \<open>tapInternalKey\<close> or \<open>tapTree\<close>, the merged internal key (that of the new output when
  it has one, else that of the old one; the tree likewise) is present, the
  reconstruction of the script from the merged key and tree answers \<open>scr\<close> and the old
  output has a script, \<open>checkTaprootOutputFields\<close> fails with \<open>ScriptMismatch\<close> exactly
  when that script differs from \<open>scr\<close>, and passes otherwise. When the new output has
  neither field it passes. The script reconstructed is the Taproot script of the
  internal key untweaked when no tree is present (no \<open>tapTree\<close>, or one whose leaf list
  gives no tree), and of the internal key tweaked by the root of the tree otherwise.
\<close>

theorem checkTaprootOutputFields_script:
  "(checkMixedTaprootAndNonTaprootOutputFields X h old new action = Inr () \<and>
    (tapTree (h new) \<noteq> None \<or> tapInternalKey (h new) \<noteq> None) \<and>
    orElse (tapInternalKey (h new)) (tapInternalKey (h old)) = Some k \<and>
    getTaprootScripPubkey X k (orElse (tapTree (h new)) (tapTree (h old))) = Inr scr \<and>
    outScript (h old) = Some spk \<longrightarrow>
      (checkTaprootOutputFields X h old new action = Inl ScriptMismatch) = (scr \<noteq> spk) \<and>
      (checkTaprootOutputFields X h old new action = Inr ()) = (scr = spk)) \<and>
   (checkMixedTaprootAndNonTaprootOutputFields X h old new action = Inr () \<and>
    tapTree (h new) = None \<and> tapInternalKey (h new) = None \<longrightarrow>
      checkTaprootOutputFields X h old new action = Inr ()) \<and>
   (tapInternalKey (h new) = Some kn \<longrightarrow>
      orElse (tapInternalKey (h new)) (tapInternalKey (h old)) = Some kn) \<and>
   (tapInternalKey (h new) = None \<longrightarrow>
      orElse (tapInternalKey (h new)) (tapInternalKey (h old)) = tapInternalKey (h old)) \<and>
   (tapTree (h new) = Some tn \<longrightarrow>
      orElse (tapTree (h new)) (tapTree (h old)) = Some tn) \<and>
   (tapTree (h new) = None \<longrightarrow>
      orElse (tapTree (h new)) (tapTree (h old)) = tapTree (h old)) \<and>
   getTaprootScripPubkey X k None = Inr (taprootOutputScript k) \<and>
   (tapTreeFromList (Some (leaves tr)) = Inr Empty \<longrightarrow>
      getTaprootScripPubkey X k (Some tr) = Inr (taprootOutputScript k)) \<and>
   (tapTreeFromList (Some (leaves tr)) = Inr st \<and> st \<noteq> Empty \<and>
    tweakKey X k (Some (treeRoot X st)) = Some x \<longrightarrow>
      getTaprootScripPubkey X k (Some tr) = Inr (taprootOutputScript x))"
proof -
  have A: "(checkTaprootOutputFields X h old new action = Inl ScriptMismatch) = (scr \<noteq> spk) \<and>
      (checkTaprootOutputFields X h old new action = Inr ()) = (scr = spk)"
    if "checkMixedTaprootAndNonTaprootOutputFields X h old new action = Inr ()"
      "tapTree (h new) \<noteq> None \<or> tapInternalKey (h new) \<noteq> None"
      "orElse (tapInternalKey (h new)) (tapInternalKey (h old)) = Some k"
      "getTaprootScripPubkey X k (orElse (tapTree (h new)) (tapTree (h old))) = Inr scr"
      "outScript (h old) = Some spk"
    using that by (auto simp: checkTaprootOutputFields_def checkTaprootScriptPubkey_def Let_def)
  have B: "checkTaprootOutputFields X h old new action = Inr ()"
    if "checkMixedTaprootAndNonTaprootOutputFields X h old new action = Inr ()"
      "tapTree (h new) = None" "tapInternalKey (h new) = None"
    using that by (simp add: checkTaprootOutputFields_def checkTaprootScriptPubkey_def)
  have O: "orElse (Some v) b = Some v" "orElse None b = b" for v :: 'a and b
    by (simp_all add: orElse_def)
  have C: "getTaprootScripPubkey X k None = Inr (taprootOutputScript k)"
    by (simp add: getTaprootScripPubkey_def p2tr_def)
  have D: "getTaprootScripPubkey X k (Some tr) = Inr (taprootOutputScript k)"
    if "tapTreeFromList (Some (leaves tr)) = Inr Empty"
    using that by (simp add: getTaprootScripPubkey_def p2tr_def)
  have E: "getTaprootScripPubkey X k (Some tr) = Inr (taprootOutputScript x)"
    if "tapTreeFromList (Some (leaves tr)) = Inr st" "st \<noteq> Empty"
      "tweakKey X k (Some (treeRoot X st)) = Some x"
    using that by (simp add: getTaprootScripPubkey_def p2tr_def)
  show ?thesis
    by (intro conjI impI; (elim conjE)?) (simp_all add: A B C D E O)
qed

text \<open>
  Witness for C6: a new output with an internal key and a tree against an old output
  with another key, whose script is the one of the new key tweaked by the root of the
  tree, and against one whose script is not; a new internal key without a tree against
  an old script that differs from the untweaked one, and against the untweaked one; a
  new output without Taproot fields.
\<close>

theorem checkTaprootOutputFields_script_witness:
  "checkMixedTaprootAndNonTaprootOutputFields samplePrims outputStore 6 5 ''addOutput'' = Inr () \<and>
   tapInternalKey (outputStore 5) = Some [1] \<and>
   tapInternalKey (outputStore 6) = Some [2] \<and>
   tapTree (outputStore 5) = Some \<lparr>leaves = sampleLeaves\<rparr> \<and>
   tapTreeFromList (Some sampleLeaves) = Inr sampleTree \<and>
   tweakKey samplePrims [1] (Some (treeRoot samplePrims sampleTree)) = Some [1, 1, 2, 3] \<and>
   getTaprootScripPubkey samplePrims [1] (Some \<lparr>leaves = sampleLeaves\<rparr>)
     = Inr (taprootOutputScript [1, 1, 2, 3]) \<and>
   outScript (outputStore 6) = Some (taprootOutputScript [1, 1, 2, 3]) \<and>
   checkTaprootOutputFields samplePrims outputStore 6 5 ''addOutput'' = Inr () \<and>
   checkMixedTaprootAndNonTaprootOutputFields samplePrims outputStore 7 5 ''addOutput'' = Inr () \<and>
   outScript (outputStore 7) = Some (taprootOutputScript [2, 1, 2, 3]) \<and>
   checkTaprootOutputFields samplePrims outputStore 7 5 ''addOutput'' = Inl ScriptMismatch \<and>
   checkMixedTaprootAndNonTaprootOutputFields samplePrims outputStore 3 2 ''addOutput'' = Inr () \<and>
   tapInternalKey (outputStore 2) = Some [1] \<and>
   getTaprootScripPubkey samplePrims [1] None = Inr (taprootOutputScript [1]) \<and>
   outScript (outputStore 3) = Some [9] \<and>
   checkTaprootOutputFields samplePrims outputStore 3 2 ''addOutput'' = Inl ScriptMismatch \<and>
   checkMixedTaprootAndNonTaprootOutputFields samplePrims outputStore 4 2 ''addOutput'' = Inr () \<and>
   outScript (outputStore 4) = Some (taprootOutputScript [1]) \<and>
   checkTaprootOutputFields samplePrims outputStore 4 2 ''addOutput'' = Inr () \<and>
   checkMixedTaprootAndNonTaprootOutputFields samplePrims outputStore 0 1 ''addOutput'' = Inr () \<and>
   tapTree (outputStore 1) = None \<and> tapInternalKey (outputStore 1) = None \<and>
   checkTaprootOutputFields samplePrims outputStore 0 1 ''addOutput'' = Inr ()"
proof -
  note C = checkTaprootOutputFields_script
  have m: "checkMixedTaprootAndNonTaprootOutputFields samplePrims outputStore 6 5 ''addOutput'' = Inr ()"
    "checkMixedTaprootAndNonTaprootOutputFields samplePrims outputStore 7 5 ''addOutput'' = Inr ()"
    "checkMixedTaprootAndNonTaprootOutputFields samplePrims outputStore 3 2 ''addOutput'' = Inr ()"
    "checkMixedTaprootAndNonTaprootOutputFields samplePrims outputStore 4 2 ''addOutput'' = Inr ()"
    "checkMixedTaprootAndNonTaprootOutputFields samplePrims outputStore 0 1 ''addOutput'' = Inr ()"
    by code_simp+
  have k5: "tapInternalKey (outputStore 5) = Some [1]" by code_simp
  have k6: "tapInternalKey (outputStore 6) = Some [2]" by code_simp
  have k2: "tapInternalKey (outputStore 2) = Some [1]" by code_simp
  have t5: "tapTree (outputStore 5) = Some \<lparr>leaves = sampleLeaves\<rparr>" by code_simp
  have t2: "tapTree (outputStore 2) = None" by code_simp
  have t34: "tapTree (outputStore 3) = None" "tapTree (outputStore 4) = None" by code_simp+
  have n1: "tapTree (outputStore 1) = None" "tapInternalKey (outputStore 1) = None" by code_simp+
  have fl: "tapTreeFromList (Some sampleLeaves) = Inr sampleTree" by code_simp
  have ne: "sampleTree \<noteq> Empty" by code_simp
  have tw: "tweakKey samplePrims [1] (Some (treeRoot samplePrims sampleTree)) = Some [1, 1, 2, 3]"
    by code_simp
  have s6: "outScript (outputStore 6) = Some (taprootOutputScript [1, 1, 2, 3])" by code_simp
  have s7: "outScript (outputStore 7) = Some (taprootOutputScript [2, 1, 2, 3])" by code_simp
  have s3: "outScript (outputStore 3) = Some [9]" by code_simp
  have s4: "outScript (outputStore 4) = Some (taprootOutputScript [1])" by code_simp
  have d1: "taprootOutputScript [1, 1, 2, 3] \<noteq> taprootOutputScript [2, 1, 2, 3]" by code_simp
  have d2: "taprootOutputScript [1] \<noteq> [9]" by code_simp
  have g5: "getTaprootScripPubkey samplePrims [1] (Some \<lparr>leaves = sampleLeaves\<rparr>)
     = Inr (taprootOutputScript [1, 1, 2, 3])"
    using C[of samplePrims outputStore 6 5 "''addOutput''" "[1]" _ _ _ _
        "\<lparr>leaves = sampleLeaves\<rparr>" sampleTree "[1, 1, 2, 3]"] fl ne tw by simp
  have g2: "getTaprootScripPubkey samplePrims [1] None = Inr (taprootOutputScript [1])"
    using C[of samplePrims outputStore 3 2 "''addOutput''" "[1]"] by blast
  have o65: "orElse (tapInternalKey (outputStore 5)) (tapInternalKey (outputStore 6)) = Some [1]"
    "orElse (tapTree (outputStore 5)) (tapTree (outputStore 6)) = Some \<lparr>leaves = sampleLeaves\<rparr>"
    using C[of samplePrims outputStore 6 5 "''addOutput''" _ _ _ "[1]" "\<lparr>leaves = sampleLeaves\<rparr>"]
      k5 t5 by blast+
  have o75: "orElse (tapInternalKey (outputStore 5)) (tapInternalKey (outputStore 7)) = Some [1]"
    "orElse (tapTree (outputStore 5)) (tapTree (outputStore 7)) = Some \<lparr>leaves = sampleLeaves\<rparr>"
    using C[of samplePrims outputStore 7 5 "''addOutput''" _ _ _ "[1]" "\<lparr>leaves = sampleLeaves\<rparr>"]
      k5 t5 by blast+
  have o32: "orElse (tapInternalKey (outputStore 2)) (tapInternalKey (outputStore 3)) = Some [1]"
    "orElse (tapTree (outputStore 2)) (tapTree (outputStore 3)) = None"
    using C[of samplePrims outputStore 3 2 "''addOutput''" _ _ _ "[1]"] k2 t2 t34 by simp_all
  have o42: "orElse (tapInternalKey (outputStore 2)) (tapInternalKey (outputStore 4)) = Some [1]"
    "orElse (tapTree (outputStore 2)) (tapTree (outputStore 4)) = None"
    using C[of samplePrims outputStore 4 2 "''addOutput''" _ _ _ "[1]"] k2 t2 t34 by simp_all
  have a: "checkTaprootOutputFields samplePrims outputStore 6 5 ''addOutput'' = Inr ()"
    using C[of samplePrims outputStore 6 5 "''addOutput''" "[1]"
        "taprootOutputScript [1, 1, 2, 3]" "taprootOutputScript [1, 1, 2, 3]"]
      m k5 o65 g5 s6 by simp
  have b: "checkTaprootOutputFields samplePrims outputStore 7 5 ''addOutput'' = Inl ScriptMismatch"
    using C[of samplePrims outputStore 7 5 "''addOutput''" "[1]"
        "taprootOutputScript [1, 1, 2, 3]" "taprootOutputScript [2, 1, 2, 3]"]
      m k5 o75 g5 s7 d1 by simp
  have c: "checkTaprootOutputFields samplePrims outputStore 3 2 ''addOutput'' = Inl ScriptMismatch"
    using C[of samplePrims outputStore 3 2 "''addOutput''" "[1]"
        "taprootOutputScript [1]" "[9]"]
      m k2 o32 g2 s3 d2 by simp
  have d: "checkTaprootOutputFields samplePrims outputStore 4 2 ''addOutput'' = Inr ()"
    using C[of samplePrims outputStore 4 2 "''addOutput''" "[1]"
        "taprootOutputScript [1]" "taprootOutputScript [1]"]
      m k2 o42 g2 s4 by simp
  have e: "checkTaprootOutputFields samplePrims outputStore 0 1 ''addOutput'' = Inr ()"
    using C[of samplePrims outputStore 0 1 "''addOutput''"] m n1 by blast
  show ?thesis
    using m k5 k6 k2 t5 fl tw g5 g2 s6 s7 s3 s4 n1 a b c d e by simp
qed

text \<open>
  Counterexample to C6 as stated. The old output has an internal key and a script that is
  not the one of that key, the new output has no Taproot field: the merged key is
  present, and the check passes. The old output has a non-Taproot field and a script, the
  new one an internal key whose script differs: the failure is \<open>MixedFieldsError\<close>.
  The new output has an internal key and a leaf list with two leaves at depth 0, the old
  one a script: the failure is \<open>MalformedTapTree\<close>.
\<close>

theorem new_without_taproot_fields_counterexample:
  "orElse (tapInternalKey (outputStore 1)) (tapInternalKey (outputStore 0)) = Some [1] \<and>
   outScript (outputStore 0) = Some [9] \<and>
   getTaprootScripPubkey samplePrims [1]
     (orElse (tapTree (outputStore 1)) (tapTree (outputStore 0))) = Inr [0x51, 0x20, 1] \<and>
   checkTaprootOutputFields samplePrims outputStore 0 1 ''addOutput'' = Inr () \<and>
   orElse (tapInternalKey (outputStore 2)) (tapInternalKey (outputStore 8)) = Some [1] \<and>
   outScript (outputStore 8) = Some [9] \<and>
   checkTaprootOutputFields samplePrims outputStore 8 2 ''addOutput''
     = Inl (MixedFieldsError ''addOutput'') \<and>
   orElse (tapInternalKey (outputStore 9)) (tapInternalKey (outputStore 3)) = Some [1] \<and>
   outScript (outputStore 3) = Some [9] \<and>
   checkTaprootOutputFields samplePrims outputStore 3 9 ''addOutput'' = Inl MalformedTapTree"
  by code_simp

end
